theory Spec2Isabelle
  imports Main "HOL-Library.AList"
begin

section \<open>Strings of the upload server\<close>

text \<open>
  A Python \<open>str\<close> is a sequence of Unicode code points, a \<open>bytes\<close> value a sequence of
  octets. Both are lists of naturals here; \<open>ustr\<close> reads an ASCII literal as a \<open>str\<close>.
\<close>

type_synonym codepoint = nat
type_synonym ustring = "codepoint list"
type_synonym bytes = "nat list"

definition ustr :: "string \<Rightarrow> ustring" where
  "ustr s = map of_char s"

definition underscore :: codepoint where "underscore = 95"
definition hyphen :: codepoint where "hyphen = 45"
definition dot :: codepoint where "dot = 46"
definition slash :: codepoint where "slash = 47"
definition backslash :: codepoint where "backslash = 92"

definition ascii_letter :: "codepoint \<Rightarrow> bool" where
  "ascii_letter c = ((65 \<le> c \<and> c \<le> 90) \<or> (97 \<le> c \<and> c \<le> 122))"

definition ascii_digit :: "codepoint \<Rightarrow> bool" where
  "ascii_digit c = (48 \<le> c \<and> c \<le> 57)"

text \<open>
  The pattern of \<open>do_POST\<close> is a \<open>str\<close> pattern compiled without \<open>re.ASCII\<close>, so \<open>\w\<close>
  is Unicode aware: it matches the underscore and every code point for which
  \<open>str.isalnum\<close> holds. Below U+0080 these are the ASCII letters and digits. In the
  Latin-1 supplement they are the letters (U+00AA, U+00B5, U+00BA, U+00C0 to U+00FF
  without the multiplication and division signs), the superscript digits (U+00B2,
  U+00B3, U+00B9) and the vulgar fractions (U+00BC to U+00BE). The rest of the Unicode
  database is not part of the repository: it is the parameter \<open>uni\<close> of the model.
\<close>

definition latin1_alnum :: "codepoint \<Rightarrow> bool" where
  "latin1_alnum c =
     (c = 170 \<or> c = 178 \<or> c = 179 \<or> c = 181 \<or> c = 185 \<or> c = 186
      \<or> (188 \<le> c \<and> c \<le> 190)
      \<or> (192 \<le> c \<and> c \<le> 214) \<or> (216 \<le> c \<and> c \<le> 246) \<or> (248 \<le> c \<and> c \<le> 255))"

definition py_isalnum :: "(codepoint \<Rightarrow> bool) \<Rightarrow> codepoint \<Rightarrow> bool" where
  "py_isalnum uni c =
     (if c < 128 then ascii_letter c \<or> ascii_digit c
      else if c < 256 then latin1_alnum c
      else uni c)"

definition word_char :: "(codepoint \<Rightarrow> bool) \<Rightarrow> codepoint \<Rightarrow> bool" where
  "word_char uni c = (py_isalnum uni c \<or> c = underscore)"

text \<open>The set \<open>[\w\-_\.]\<close>; the pattern \<open>[^\w\-_\.]\<close> matches one character outside it.\<close>

definition in_class :: "(codepoint \<Rightarrow> bool) \<Rightarrow> codepoint \<Rightarrow> bool" where
  "in_class uni c = (word_char uni c \<or> c = hyphen \<or> c = underscore \<or> c = dot)"

text \<open>
  \<open>re.sub\<close> with a pattern that matches exactly one character: the scan goes left to
  right, a matching character is replaced, any other is copied.
\<close>

fun re_sub1 :: "(codepoint \<Rightarrow> bool) \<Rightarrow> codepoint \<Rightarrow> ustring \<Rightarrow> ustring" where
  "re_sub1 matches repl [] = []"
| "re_sub1 matches repl (c # cs) =
     (if matches c then repl # re_sub1 matches repl cs else c # re_sub1 matches repl cs)"

text \<open>\<open>filename = re.sub(r'[^\w\-_\.]', '_', filename)\<close>\<close>

definition sanitize :: "(codepoint \<Rightarrow> bool) \<Rightarrow> ustring \<Rightarrow> ustring" where
  "sanitize uni filename = re_sub1 (\<lambda>c. \<not> in_class uni c) underscore filename"

section \<open>\<open>os.path.splitext\<close>\<close>

text \<open>\<open>str.rfind\<close> of a single character: the highest index holding it, or \<open>-1\<close>.\<close>

fun rfind_from :: "codepoint \<Rightarrow> ustring \<Rightarrow> nat \<Rightarrow> int" where
  "rfind_from c s 0 = -1"
| "rfind_from c s (Suc i) = (if s ! i = c then int i else rfind_from c s i)"

definition rfind :: "codepoint \<Rightarrow> ustring \<Rightarrow> int" where
  "rfind c s = rfind_from c s (length s)"

text \<open>
  The loop of \<open>genericpath._splitext\<close> that skips leading dots: it answers whether a
  character other than a dot stands at an index from \<open>i\<close> up to \<open>dotIndex\<close>.
\<close>

function name_before_dot :: "ustring \<Rightarrow> nat \<Rightarrow> nat \<Rightarrow> bool" where
  "name_before_dot p i dotIndex =
     (if i < dotIndex
      then (if p ! i \<noteq> dot then True else name_before_dot p (Suc i) dotIndex)
      else False)"
  by pat_completeness auto
termination
  by (relation "measure (\<lambda>(p, i, d). d - i)") auto

declare name_before_dot.simps [simp del]

definition splitext :: "ustring \<Rightarrow> ustring \<times> ustring" where
  "splitext p =
     (let sepIndex = rfind slash p;
          dotIndex = rfind dot p
      in if dotIndex > sepIndex \<and> name_before_dot p (nat (sepIndex + 1)) (nat dotIndex)
         then (take (nat dotIndex) p, drop (nat dotIndex) p)
         else (p, []))"

section \<open>The timestamp\<close>

record datetime =
  year :: nat
  month :: nat
  day :: nat
  hour :: nat
  minute :: nat
  second :: nat
  microsecond :: nat

text \<open>The values \<open>datetime.now()\<close> can return (the calendar's days per month left aside).\<close>

definition valid_datetime :: "datetime \<Rightarrow> bool" where
  "valid_datetime d =
     (1 \<le> year d \<and> year d \<le> 9999 \<and> 1 \<le> month d \<and> month d \<le> 12
      \<and> 1 \<le> day d \<and> day d \<le> 31 \<and> hour d < 24 \<and> minute d < 60 \<and> second d < 60
      \<and> microsecond d < 1000000)"

definition digit :: "nat \<Rightarrow> codepoint" where
  "digit n = 48 + n mod 10"

text \<open>The decimal digits of a natural number, as \<open>str(n)\<close> and \<open>%Y\<close> write them.\<close>

fun dec :: "nat \<Rightarrow> ustring" where
  "dec n = (if n < 10 then [digit n] else dec (n div 10) @ [digit n])"

declare dec.simps [simp del]

text \<open>A field of two digits, padded with a zero: \<open>%m\<close>, \<open>%d\<close>, \<open>%H\<close>, \<open>%M\<close>, \<open>%S\<close>.\<close>

definition pad2 :: "nat \<Rightarrow> ustring" where
  "pad2 n = [digit (n div 10), digit n]"

text \<open>
  \<open>strftime('%Y%m%d_%H%M%S')\<close>. The C library writes the year as a decimal number
  without padding, so a year below 1000 has fewer than four digits.
\<close>

definition timestamp :: "datetime \<Rightarrow> ustring" where
  "timestamp d =
     dec (year d) @ pad2 (month d) @ pad2 (day d) @ [underscore]
     @ pad2 (hour d) @ pad2 (minute d) @ pad2 (second d)"

text \<open>
  Lines 290 to 295 of \<open>do_POST\<close>: sanitize, split, and put the timestamp between
  base and extension.
\<close>

definition stored_name :: "(codepoint \<Rightarrow> bool) \<Rightarrow> datetime \<Rightarrow> ustring \<Rightarrow> ustring" where
  "stored_name uni now filename =
     (let (base, ext) = splitext (sanitize uni filename)
      in base @ [underscore] @ timestamp now @ ext)"

section \<open>Paths\<close>

text \<open>
  A \<open>pathlib\<close> path: whether it starts at the root, and its parts. Parsing a string
  splits it at the slashes and drops empty parts and single dots; \<open>..\<close> is kept. (The
  POSIX root \<open>//\<close> is read as \<open>/\<close>.)
\<close>

record ppath =
  absolute :: bool
  parts :: "ustring list"

fun split_on :: "codepoint \<Rightarrow> ustring \<Rightarrow> ustring list" where
  "split_on sep [] = [[]]"
| "split_on sep (c # cs) =
     (if c = sep then [] # split_on sep cs
      else (case split_on sep cs of
              [] \<Rightarrow> [[c]]
            | s # ss \<Rightarrow> (c # s) # ss))"

definition parse_path :: "ustring \<Rightarrow> ppath" where
  "parse_path s =
     \<lparr>absolute = (s \<noteq> [] \<and> hd s = slash),
      parts = filter (\<lambda>seg. seg \<noteq> [] \<and> seg \<noteq> [dot]) (split_on slash s)\<rparr>"

text \<open>\<open>UPLOAD_DIR / filename\<close>: an absolute right operand replaces the left one.\<close>

definition path_join :: "ppath \<Rightarrow> ustring \<Rightarrow> ppath" where
  "path_join p s =
     (let q = parse_path s
      in if absolute q then q else \<lparr>absolute = absolute p, parts = parts p @ parts q\<rparr>)"

fun join_parts :: "ustring list \<Rightarrow> ustring" where
  "join_parts [] = []"
| "join_parts [s] = s"
| "join_parts (s # t # ss) = s @ [slash] @ join_parts (t # ss)"

text \<open>\<open>str(path)\<close>\<close>

definition path_str :: "ppath \<Rightarrow> ustring" where
  "path_str p =
     (if absolute p then slash # join_parts (parts p)
      else if parts p = [] then [dot]
      else join_parts (parts p))"

text \<open>
  The canonical form of a path: made absolute from the working directory, each \<open>..\<close>
  removing the part before it (at the root it removes nothing). Symbolic links are
  not part of the model.
\<close>

definition dotdot :: ustring where
  "dotdot = [dot, dot]"

definition collapse_step :: "ustring list \<Rightarrow> ustring \<Rightarrow> ustring list" where
  "collapse_step acc seg = (if seg = dotdot then butlast acc else acc @ [seg])"

definition resolve :: "ustring list \<Rightarrow> ppath \<Rightarrow> ustring list" where
  "resolve cwd p = foldl collapse_step [] ((if absolute p then [] else cwd) @ parts p)"

text \<open>A canonical path lies inside a directory when it extends the directory's.\<close>

definition inside :: "ustring list \<Rightarrow> ustring list \<Rightarrow> bool" where
  "inside d t = (length d < length t \<and> take (length d) t = d)"

section \<open>The file system\<close>

text \<open>
  The file system as the handlers see it: canonical paths with what they hold, in
  the order in which a directory scan yields them. The root always exists.
\<close>

datatype node = File bytes int | Directory

type_synonym fs = "(ustring list \<times> node) list"

definition node_at :: "fs \<Rightarrow> ustring list \<Rightarrow> node option" where
  "node_at fs p = (if p = [] then Some Directory else map_of fs p)"

fun is_file :: "node \<Rightarrow> bool" where
  "is_file (File data mt) = True"
| "is_file Directory = False"

fun st_size :: "node \<Rightarrow> nat" where
  "st_size (File data mt) = length data"
| "st_size Directory = 0"

fun st_mtime :: "node \<Rightarrow> int" where
  "st_mtime (File data mt) = mt"
| "st_mtime Directory = 0"

datatype os_error =
  Injected string | File_exists | Not_a_directory | Is_a_directory | File_not_found

datatype py_exception =
  TypeError | AttributeError | ValueError string | OSError os_error

text \<open>
  What the operating system decides at one upload: the clock, and the failures of
  directory creation (with the number of directories created before the failure),
  of opening the file and of writing to it (with the number of bytes that reached
  the file before the write failed).
\<close>

record io =
  now :: datetime
  mtime_now :: int
  mkdir_fault :: "(nat \<times> string) option"
  open_fault :: "string option"
  write_fault :: "(nat \<times> string) option"

text \<open>
  \<open>mkdir(parents=True, exist_ok=True)\<close> along a canonical path: an existing
  directory is accepted, a missing one is created, a file in the way is an error.
  A failure the operating system decides comes after the directories created so
  far, which stay.
\<close>

fun mkdir_parents ::
  "(nat \<times> string) option \<Rightarrow> fs \<Rightarrow> ustring list \<Rightarrow> ustring list \<Rightarrow> os_error option \<times> fs" where
  "mkdir_parents fault fs pre [] =
     (case fault of
        Some (k, msg) \<Rightarrow> (Some (Injected msg), fs)
      | None \<Rightarrow> (None, fs))"
| "mkdir_parents fault fs pre (s # rest) =
     (case map_of fs (pre @ [s]) of
        Some (File data mt) \<Rightarrow> (Some (if rest = [] then File_exists else Not_a_directory), fs)
      | Some Directory \<Rightarrow> mkdir_parents fault fs (pre @ [s]) rest
      | None \<Rightarrow>
          (case fault of
             Some (0, msg) \<Rightarrow> (Some (Injected msg), fs)
           | Some (Suc k, msg) \<Rightarrow>
               mkdir_parents (Some (k, msg)) (fs @ [(pre @ [s], Directory)]) (pre @ [s]) rest
           | None \<Rightarrow> mkdir_parents None (fs @ [(pre @ [s], Directory)]) (pre @ [s]) rest))"

definition mkdir :: "io \<Rightarrow> fs \<Rightarrow> ustring list \<Rightarrow> os_error option \<times> fs" where
  "mkdir w fs d = mkdir_parents (mkdir_fault w) fs [] d"

text \<open>
  \<open>Path.write_bytes\<close>: open the file for writing (which creates or truncates it),
  write, close. There is no temporary file: what is written goes to the final name.
\<close>

definition write_bytes :: "io \<Rightarrow> fs \<Rightarrow> ustring list \<Rightarrow> bytes \<Rightarrow> os_error option \<times> fs" where
  "write_bytes w fs t data =
     (if t = [] then (Some Is_a_directory, fs)
      else (case node_at fs (butlast t) of
              None \<Rightarrow> (Some File_not_found, fs)
            | Some (File d0 m0) \<Rightarrow> (Some Not_a_directory, fs)
            | Some Directory \<Rightarrow>
                (case map_of fs t of
                   Some Directory \<Rightarrow> (Some Is_a_directory, fs)
                 | _ \<Rightarrow>
                   (case open_fault w of
                      Some msg \<Rightarrow> (Some (Injected msg), fs)
                    | None \<Rightarrow>
                      (case write_fault w of
                         Some (k, msg) \<Rightarrow>
                           (Some (Injected msg),
                            AList.update t (File (take k data) (mtime_now w)) fs)
                       | None \<Rightarrow>
                           (None, AList.update t (File data (mtime_now w)) fs))))))"

section \<open>Requests and responses\<close>

text \<open>
  One field of a parsed form: its name, its \<open>filename\<close> attribute (\<open>None\<close> when the
  part has none) and what reading its \<open>file\<close> attribute gives. A part of a multipart
  body always has a file object; a field of a body parsed as URL-encoded pairs (a
  \<open>MiniFieldStorage\<close>) has \<open>file = None\<close> and \<open>filename = None\<close>.
\<close>

record field =
  field_name :: ustring
  filename :: "ustring option"
  file_object :: "bytes option"

text \<open>
  A request: the path, the \<open>Content-Type\<close> header if there is one, and what
  \<open>cgi.FieldStorage\<close> makes of the body: the list of fields, or the exception
  raised by the parser or by the test \<open>'file' not in form\<close> on a form that has no
  list of fields.
\<close>

record request =
  path :: ustring
  content_type :: "ustring option"
  form :: "py_exception + field list"

record file_info =
  info_name :: ustring
  info_path :: ustring
  info_size :: ustring
  info_time :: ustring

datatype error_text = Text ustring | Str_of py_exception

datatype body =
  Empty
| Html
| Json_files "file_info list"
| Json_success ustring nat
| Json_failure error_text

datatype response = Response nat body | Unhandled py_exception

text \<open>
  The module's configuration (\<open>UPLOAD_DIR\<close>, \<open>PORT\<close>) and what the platform fixes:
  the working directory, the Unicode table beyond Latin-1 and the local time zone.
\<close>

record config =
  upload_dir :: ppath
  port :: nat
  cwd :: "ustring list"
  uni :: "codepoint \<Rightarrow> bool"
  fromtimestamp :: "int \<Rightarrow> datetime"

text \<open>\<open>sub in s\<close> for strings\<close>

fun contains :: "ustring \<Rightarrow> ustring \<Rightarrow> bool" where
  "contains sub [] = (sub = [])"
| "contains sub (c # cs) = (take (length sub) (c # cs) = sub \<or> contains sub cs)"

definition fail500 :: "py_exception \<Rightarrow> response" where
  "fail500 e = Response 500 (Json_failure (Str_of e))"

text \<open>
  Lines 285 to 305: the upload of one field. Reading the payload of a field whose
  \<open>file\<close> is \<open>None\<close> raises \<open>AttributeError\<close>; after that, a field without a
  \<open>filename\<close> makes \<open>re.sub\<close> raise \<open>TypeError\<close>. Both happen before anything is
  created.
\<close>

definition save_upload :: "config \<Rightarrow> io \<Rightarrow> fs \<Rightarrow> field \<Rightarrow> response \<times> fs" where
  "save_upload cfg w fs item =
     (case file_object item of
        None \<Rightarrow> (fail500 AttributeError, fs)
      | Some data \<Rightarrow>
          (case filename item of
             None \<Rightarrow> (fail500 TypeError, fs)
           | Some name0 \<Rightarrow>
               (let name = stored_name (uni cfg) (now w) name0
                in case mkdir w fs (resolve (cwd cfg) (upload_dir cfg)) of
                     (Some e, fs1) \<Rightarrow> (fail500 (OSError e), fs1)
                   | (None, fs1) \<Rightarrow>
                       (let filepath = path_join (upload_dir cfg) name
                        in case write_bytes w fs1 (resolve (cwd cfg) filepath) data of
                             (Some e, fs2) \<Rightarrow> (fail500 (OSError e), fs2)
                           | (None, fs2) \<Rightarrow>
                               (Response 200 (Json_success (path_str filepath) (length data)),
                                fs2)))))"

text \<open>\<open>self.headers.get('Content-Type', '')\<close>\<close>

definition header_content_type :: "request \<Rightarrow> ustring" where
  "header_content_type req = (case content_type req of None \<Rightarrow> [] | Some c \<Rightarrow> c)"

text \<open>\<open>'multipart/form-data' in content_type\<close>\<close>

definition is_multipart :: "request \<Rightarrow> bool" where
  "is_multipart req = contains (ustr ''multipart/form-data'') (header_content_type req)"

text \<open>\<open>form['file']\<close> looks at the parts named \<open>file\<close>.\<close>

definition file_parts :: "field list \<Rightarrow> field list" where
  "file_parts flds = filter (\<lambda>f. field_name f = ustr ''file'') flds"

text \<open>
  \<open>do_POST\<close>. \<open>form['file']\<close> is the part when exactly one part has that name, and
  a list of parts otherwise, which has no attribute \<open>filename\<close>. Every exception
  raised inside the \<open>try\<close> block is answered with status 500.
\<close>

definition do_POST :: "config \<Rightarrow> io \<Rightarrow> fs \<Rightarrow> request \<Rightarrow> response \<times> fs" where
  "do_POST cfg w fs req =
     (if path req = ustr ''/upload'' then
        (if is_multipart req then
           (case form req of
              Inl e \<Rightarrow> (fail500 e, fs)
            | Inr flds \<Rightarrow>
                (case file_parts flds of
                   [] \<Rightarrow> (Response 400 (Json_failure (Text (ustr ''No file provided''))), fs)
                 | [item] \<Rightarrow> save_upload cfg w fs item
                 | item # others \<Rightarrow> (fail500 AttributeError, fs)))
         else (Response 400 (Json_failure (Text (ustr ''Invalid content type''))), fs))
      else (Response 404 Empty, fs))"

section \<open>The listing\<close>

text \<open>
  \<open>f"{size/unit:.1f}"\<close> for a unit that is a power of two: the quotient is exact in
  binary floating point (for sizes below \<open>2 ^ 53\<close>), and the format rounds it to the
  nearest tenth, a tie going to the even tenth. \<open>tenths\<close> is that number of tenths.
\<close>

definition tenths :: "nat \<Rightarrow> nat \<Rightarrow> nat" where
  "tenths n u =
     (let q = (10 * n) div u;
          r = (10 * n) mod u
      in if 2 * r < u then q
         else if u < 2 * r then q + 1
         else if even q then q else q + 1)"

definition one_decimal :: "nat \<Rightarrow> nat \<Rightarrow> ustring" where
  "one_decimal n u = dec (tenths n u div 10) @ [dot] @ [digit (tenths n u)]"

definition size_str :: "nat \<Rightarrow> ustring" where
  "size_str n =
     (if n < 1024 then dec n @ ustr '' B''
      else if n < 1024 * 1024 then one_decimal n 1024 @ ustr '' KB''
      else one_decimal n (1024 * 1024) @ ustr '' MB'')"

text \<open>\<open>strftime('%Y-%m-%d %H:%M:%S')\<close>\<close>

definition listing_time :: "datetime \<Rightarrow> ustring" where
  "listing_time d =
     dec (year d) @ [hyphen] @ pad2 (month d) @ [hyphen] @ pad2 (day d) @ ustr '' ''
     @ pad2 (hour d) @ ustr '':'' @ pad2 (minute d) @ ustr '':'' @ pad2 (second d)"

text \<open>\<open>UPLOAD_DIR.iterdir()\<close>: the entries directly inside a directory, by name.\<close>

definition iterdir :: "fs \<Rightarrow> ustring list \<Rightarrow> (ustring \<times> node) list" where
  "iterdir fs d =
     map (\<lambda>(p, nd). (last p, nd)) (filter (\<lambda>(p, nd). p \<noteq> [] \<and> butlast p = d) fs)"

text \<open>
  \<open>sorted(xs, key=k, reverse=True)\<close>: a stable sort in descending order, which keeps
  entries of equal key in their order in \<open>xs\<close>.
\<close>

definition sorted_reverse :: "('a \<Rightarrow> int) \<Rightarrow> 'a list \<Rightarrow> 'a list" where
  "sorted_reverse k xs = rev (sort_key k (rev xs))"

definition file_info_of :: "config \<Rightarrow> ustring \<times> node \<Rightarrow> file_info" where
  "file_info_of cfg e =
     \<lparr>info_name = fst e,
      info_path = path_str \<lparr>absolute = absolute (upload_dir cfg),
                             parts = parts (upload_dir cfg) @ [fst e]\<rparr>,
      info_size = size_str (st_size (snd e)),
      info_time = listing_time (fromtimestamp cfg (st_mtime (snd e)))\<rparr>"

definition listed_entries :: "config \<Rightarrow> fs \<Rightarrow> (ustring \<times> node) list" where
  "listed_entries cfg fs =
     filter (\<lambda>e. is_file (snd e))
       (sorted_reverse (\<lambda>e. st_mtime (snd e))
          (iterdir fs (resolve (cwd cfg) (upload_dir cfg))))"

text \<open>
  \<open>do_GET\<close>. Nothing catches an exception here: when \<open>UPLOAD_DIR\<close> is a regular
  file, \<open>iterdir\<close> raises and no response is written.
\<close>

definition do_GET :: "config \<Rightarrow> fs \<Rightarrow> request \<Rightarrow> response" where
  "do_GET cfg fs req =
     (if path req = ustr ''/'' then Response 200 Html
      else if path req = ustr ''/files'' then
        (case node_at fs (resolve (cwd cfg) (upload_dir cfg)) of
           None \<Rightarrow> Response 200 (Json_files [])
         | Some Directory \<Rightarrow> Response 200 (Json_files (map (file_info_of cfg) (listed_entries cfg fs)))
         | Some (File data mt) \<Rightarrow> Unhandled (OSError Not_a_directory))
      else Response 404 Empty)"

text \<open>One request handled by the server: the response and the file system after it.\<close>

datatype http_method = GET | POST

fun handle :: "config \<Rightarrow> io \<Rightarrow> fs \<Rightarrow> http_method \<Rightarrow> request \<Rightarrow> response \<times> fs" where
  "handle cfg w fs GET req = (do_GET cfg fs req, fs)"
| "handle cfg w fs POST req = do_POST cfg w fs req"

text \<open>
  The server (\<open>HTTPServer.serve_forever\<close>) handles its requests one after the other;
  each request meets the operating system of its moment.
\<close>

fun serve :: "config \<Rightarrow> fs \<Rightarrow> (io \<times> http_method \<times> request) list \<Rightarrow> fs" where
  "serve cfg fs [] = fs"
| "serve cfg fs ((w, m, req) # rest) = serve cfg (snd (handle cfg w fs m req)) rest"

section \<open>Notions of the specification and example data\<close>

text \<open>
  The characters the specification says are kept: an ASCII letter, an ASCII digit, an
  underscore, a hyphen or a dot.
\<close>

definition spec_allowed_char :: "codepoint \<Rightarrow> bool" where
  "spec_allowed_char c =
     (ascii_letter c \<or> ascii_digit c \<or> c = underscore \<or> c = hyphen \<or> c = dot)"

text \<open>The number a string of decimal digits denotes.\<close>

fun undec :: "ustring \<Rightarrow> nat" where
  "undec s = foldl (\<lambda>a c. 10 * a + (c - 48)) 0 s"








text \<open>Two clock readings in the same second: \<open>strftime\<close> drops the microseconds.\<close>

definition same_second :: "datetime \<Rightarrow> datetime \<Rightarrow> bool" where
  "same_second a b =
     (year a = year b \<and> month a = month b \<and> day a = day b
      \<and> hour a = hour b \<and> minute a = minute b \<and> second a = second b)"

text \<open>
  The media type that a \<open>Content-Type\<close> header names: what stands before the first
  semicolon, letter case set aside. A request declares a multipart form when that
  media type is \<open>multipart/form-data\<close>.
\<close>

definition semicolon :: codepoint where "semicolon = 59"

definition ascii_lower :: "codepoint \<Rightarrow> codepoint" where
  "ascii_lower c = (if 65 \<le> c \<and> c \<le> 90 then c + 32 else c)"

definition media_type :: "ustring \<Rightarrow> ustring" where
  "media_type ct = map ascii_lower (takeWhile (\<lambda>c. c \<noteq> semicolon) ct)"

definition declares_multipart :: "request \<Rightarrow> bool" where
  "declares_multipart req = (media_type (header_content_type req) = ustr ''multipart/form-data'')"

text \<open>
  Example data: 15 January 2024, 10:30:00; a Unicode table with no alphanumeric
  character beyond Latin-1; the default configuration with its directory
  \<open>/home/claude/share\<close>; an operating system without failures.
\<close>

definition example_now :: datetime where
  "example_now =
     \<lparr>year = 2024, month = 1, day = 15, hour = 10, minute = 30, second = 0, microsecond = 0\<rparr>"

definition no_table :: "codepoint \<Rightarrow> bool" where
  "no_table c = False"

definition example_config :: config where
  "example_config =
     \<lparr>upload_dir = \<lparr>absolute = True, parts = [ustr ''home'', ustr ''claude'', ustr ''share'']\<rparr>,
      port = 8888,
      cwd = [ustr ''srv''],
      uni = no_table,
      fromtimestamp = (\<lambda>t. example_now)\<rparr>"

definition example_io :: io where
  "example_io =
     \<lparr>now = example_now, mtime_now = 1705314600,
      mkdir_fault = None, open_fault = None, write_fault = None\<rparr>"

text \<open>
  Example requests: a part of a multipart form named \<open>file\<close>, an upload request
  carrying given parts, and a file system in which the storage directory exists.
\<close>

definition example_part :: "ustring option \<Rightarrow> bytes \<Rightarrow> field" where
  "example_part name data = \<lparr>field_name = ustr ''file'', filename = name, file_object = Some data\<rparr>"

definition example_upload :: "field list \<Rightarrow> request" where
  "example_upload flds =
     \<lparr>path = ustr ''/upload'',
      content_type = Some (ustr ''multipart/form-data; boundary=x''),
      form = Inr flds\<rparr>"

definition example_dir :: "ustring list" where
  "example_dir = [ustr ''home'', ustr ''claude'', ustr ''share'']"

definition example_fs :: fs where
  "example_fs =
     [([ustr ''home''], Directory),
      ([ustr ''home'', ustr ''claude''], Directory),
      (example_dir, Directory)]"

text \<open>
  More example data: a configuration whose storage directory is the relative path
  \<open>uploads\<close>, with a file system in which it exists under the working directory;
  an operating system whose disk is full after two bytes of a write, and one that
  refuses to create a directory; the canonical path of the file that an upload of
  \<open>a.txt\<close> at the example time is stored in.
\<close>

definition relative_config :: config where
  "relative_config =
     example_config\<lparr>upload_dir := \<lparr>absolute = False, parts = [ustr ''uploads'']\<rparr>\<rparr>"

definition relative_fs :: fs where
  "relative_fs = [([ustr ''srv''], Directory), ([ustr ''srv'', ustr ''uploads''], Directory)]"

definition full_disk_io :: io where
  "full_disk_io = example_io\<lparr>write_fault := Some (2, ''No space left on device'')\<rparr>"

definition no_permission_io :: io where
  "no_permission_io = example_io\<lparr>mkdir_fault := Some (0, ''Permission denied'')\<rparr>"

definition example_target :: "ustring list" where
  "example_target = example_dir @ [ustr ''a_20240115_103000.txt'']"

text \<open>
  Later moments: half a second after the example time, in the same second of the
  clock; one second after it; and the two moments of a night in which the local
  clock is set back by one hour, which both read 02:30:00 and lie 3600 seconds
  apart.
\<close>

definition later_io :: io where
  "later_io = example_io\<lparr>now := example_now\<lparr>microsecond := 500000\<rparr>\<rparr>"

definition next_second_io :: io where
  "next_second_io =
     example_io\<lparr>now := example_now\<lparr>second := 1\<rparr>, mtime_now := 1705314601\<rparr>"

definition set_back_night :: datetime where
  "set_back_night =
     \<lparr>year = 2024, month = 10, day = 27, hour = 2, minute = 30, second = 0, microsecond = 0\<rparr>"

definition before_set_back_io :: io where
  "before_set_back_io = example_io\<lparr>now := set_back_night, mtime_now := 1729989000\<rparr>"

definition after_set_back_io :: io where
  "after_set_back_io = example_io\<lparr>now := set_back_night, mtime_now := 1729992600\<rparr>"



text \<open>
  More requests: the request of the listing, and three POSTs. The first POST has a content type that is not a multipart form but
  carries the text \<open>multipart/form-data\<close> in a parameter; its body \<open>file=abc\<close> is
  parsed as URL-encoded pairs, which gives one field named \<open>file\<close> without a file
  object. The other two declare a multipart form in capital letters and carry a part
  named \<open>file\<close>, one with a filename and a payload of three bytes, one without a
  filename.
\<close>

definition smuggled_request :: request where
  "smuggled_request =
     \<lparr>path = ustr ''/upload'',
      content_type = Some (ustr ''application/x-www-form-urlencoded; x=multipart/form-data''),
      form = Inr [\<lparr>field_name = ustr ''file'', filename = None, file_object = None\<rparr>]\<rparr>"

definition files_request :: request where
  "files_request = \<lparr>path = ustr ''/files'', content_type = None, form = Inr []\<rparr>"

definition capitalised_file_upload :: request where
  "capitalised_file_upload =
     \<lparr>path = ustr ''/upload'',
      content_type = Some (ustr ''Multipart/Form-Data; boundary=x''),
      form = Inr [example_part (Some (ustr ''a.txt'')) [1, 2, 3]]\<rparr>"

definition capitalised_upload :: request where
  "capitalised_upload =
     \<lparr>path = ustr ''/upload'',
      content_type = Some (ustr ''Multipart/Form-Data; boundary=x''),
      form = Inr [example_part None (ustr ''hello'')]\<rparr>"

section \<open>Decimal notation\<close>

lemmas char_defs =
  underscore_def hyphen_def dot_def slash_def backslash_def ascii_letter_def ascii_digit_def
  latin1_alnum_def py_isalnum_def word_char_def in_class_def spec_allowed_char_def no_table_def

lemma digit_is_digit: "ascii_digit (digit n)"
  by (simp add: ascii_digit_def digit_def)

lemma dec_digits: "list_all ascii_digit (dec n)"
proof (induction n rule: dec.induct)
  case (1 n)
  then show ?case by (cases "n < 10") (simp_all add: dec.simps [of n] digit_is_digit)
qed



text \<open>A year of four digits.\<close>

lemma dec_four:
  "1000 \<le> y \<Longrightarrow> y < 10000 \<Longrightarrow>
   dec y = [digit (y div 1000), digit (y div 100), digit (y div 10), digit y]"
proof -
  assume a: "1000 \<le> y" "y < 10000"
  have d2: "y div 10 div 10 = y div 100" by (simp add: div_mult2_eq [symmetric])
  have d3: "y div 100 div 10 = y div 1000" by (simp add: div_mult2_eq [symmetric])
  have n1: "\<not> y < 10" using a by simp
  have n2: "\<not> y div 10 < 10" using a by linarith
  have n3: "\<not> y div 10 div 10 < 10" using a by linarith
  have n4: "y div 10 div 10 div 10 < 10" using a by linarith
  have "dec y = dec (y div 10) @ [digit y]"
    by (simp add: dec.simps [of y] n1)
  also have "dec (y div 10) = dec (y div 10 div 10) @ [digit (y div 10)]"
    by (simp add: dec.simps [of "y div 10"] n2)
  also have "dec (y div 10 div 10) = dec (y div 10 div 10 div 10) @ [digit (y div 10 div 10)]"
    by (simp add: dec.simps [of "y div 10 div 10"] n3)
  also have "dec (y div 10 div 10 div 10) = [digit (y div 10 div 10 div 10)]"
    by (simp add: dec.simps [of "y div 10 div 10 div 10"] n4)
  finally show ?thesis by (simp add: d2 d3)
qed

section \<open>The sanitizer\<close>

lemmas name_defs =
  ustr_def sanitize_def rfind_def splitext_def name_before_dot.simps stored_name_def
  timestamp_def pad2_def dec_four digit_def example_now_def dotdot_def

lemma sanitize_map: "sanitize u s = map (\<lambda>c. if in_class u c then c else underscore) s"
  unfolding sanitize_def by (induction s) simp_all

lemma in_class_ascii: "c < 128 \<Longrightarrow> in_class u c = spec_allowed_char c"
  by (auto simp: in_class_def spec_allowed_char_def word_char_def py_isalnum_def)

lemma slash_not_in_class: "\<not> in_class u slash"
  by (simp add: char_defs)

lemma backslash_not_in_class: "\<not> in_class u backslash"
  by (simp add: char_defs)

lemma sanitize_in_class: "c \<in> set (sanitize u s) \<Longrightarrow> in_class u c"
  by (auto simp: sanitize_map in_class_def)

lemma slash_notin_sanitize: "slash \<notin> set (sanitize u s)"
  using sanitize_in_class slash_not_in_class by blast

lemma backslash_notin_sanitize: "backslash \<notin> set (sanitize u s)"
  using sanitize_in_class backslash_not_in_class by blast

text \<open>
  C2, as the specification states it, fails: the small letter e with acute accent
  (U+00E9) is not an ASCII letter, and the sanitizer keeps it.
\<close>

theorem sanitize_keeps_non_ascii_letter:
  "sanitize no_table [233] = [233] \<and> \<not> spec_allowed_char 233"
  by (simp add: sanitize_def char_defs)

text \<open>
  C2, amended: the sanitizer keeps the length of the filename and replaces by an
  underscore exactly the characters outside the class of the pattern, that is the
  characters that are not a word character of the Unicode-aware \<open>\w\<close>, a hyphen, an
  underscore or a dot; every other character is left as it is. On ASCII characters
  the class is the one of the specification.
\<close>

theorem sanitize_replaces_outside_class:
  "length (sanitize u s) = length s
   \<and> (\<forall>i<length s. sanitize u s ! i = (if in_class u (s ! i) then s ! i else underscore))
   \<and> (\<forall>c<128. in_class u c = spec_allowed_char c)"
  by (simp add: sanitize_map in_class_ascii)

theorem sanitize_replaces_outside_class_witness:
  "(1::nat) < length (ustr ''a b'')
   \<and> sanitize no_table (ustr ''a b'') ! 1 = underscore
   \<and> sanitize no_table (ustr ''a b'') ! 0 = 97
   \<and> (47::nat) < 128 \<and> in_class no_table 47 = spec_allowed_char 47"
  using sanitize_replaces_outside_class [of no_table "ustr ''a b''"]
  by (simp add: ustr_def char_defs)

section \<open>Base, extension and timestamp\<close>


lemma splitext_append: "splitext p = (b, e) \<Longrightarrow> b @ e = p"
  by (auto simp: splitext_def Let_def split: if_splits)





text \<open>The timestamp of a clock reading whose year has four digits.\<close>

lemma timestamp_four:
  "1000 \<le> year d \<Longrightarrow> year d < 10000 \<Longrightarrow>
   timestamp d
   = [digit (year d div 1000), digit (year d div 100), digit (year d div 10), digit (year d)]
     @ pad2 (month d) @ pad2 (day d) @ [underscore]
     @ pad2 (hour d) @ pad2 (minute d) @ pad2 (second d)"
  by (simp add: timestamp_def dec_four)



lemma timestamp_chars: "c \<in> set (timestamp d) \<Longrightarrow> ascii_digit c \<or> c = underscore"
  using dec_digits [of "year d"]
  by (auto simp: timestamp_def pad2_def digit_is_digit list_all_iff)

lemma timestamp_no_slash: "slash \<notin> set (timestamp d)"
  using timestamp_chars [of slash d]
  by (auto simp: ascii_digit_def slash_def underscore_def)

lemma pad2_val: "y < 100 \<Longrightarrow> (y div 10 mod 10) * 10 + y mod 10 = (y::nat)"
proof -
  assume y: "y < 100"
  have c: "y div 10 < 10" using y by linarith
  have 1: "y div 10 * 10 + y mod 10 = y" by simp
  from c 1 show ?thesis by simp
qed

lemma pad4_val:
  "y < 10000 \<Longrightarrow>
   (y div 1000 mod 10) * 1000 + (y div 100 mod 10) * 100 + (y div 10 mod 10) * 10 + y mod 10
   = (y::nat)"
proof -
  assume y: "y < 10000"
  have a: "y div 1000 = y div 100 div 10" by (simp add: div_mult2_eq [symmetric])
  have b: "y div 100 = y div 10 div 10" by (simp add: div_mult2_eq [symmetric])
  have c: "y div 100 div 10 < 10" using y a by linarith
  have 1: "y div 10 * 10 + y mod 10 = y" by simp
  have 2: "y div 10 div 10 * 10 + y div 10 mod 10 = y div 10" by simp
  have 3: "y div 100 div 10 * 10 + y div 100 mod 10 = y div 100" by simp
  have 4: "y div 1000 mod 10 = y div 1000" using c a by simp
  from 1 2 3 4 a b show ?thesis by linarith
qed

lemma undec_pad2: "n < 100 \<Longrightarrow> undec (pad2 n) = n"
  using pad2_val [of n] by (simp add: pad2_def digit_def)

lemma undec_four:
  "n < 10000 \<Longrightarrow>
   undec [digit (n div 1000), digit (n div 100), digit (n div 10), digit n] = n"
  using pad4_val [of n] by (simp add: digit_def)

text \<open>The digits of a timestamp spell the fields of the clock reading.\<close>

lemma timestamp_fields:
  assumes "valid_datetime d" and "1000 \<le> year d"
  shows "undec (take 4 (timestamp d)) = year d"
    and "undec (take 2 (drop 4 (timestamp d))) = month d"
    and "undec (take 2 (drop 6 (timestamp d))) = day d"
    and "timestamp d ! 8 = underscore"
    and "undec (take 2 (drop 9 (timestamp d))) = hour d"
    and "undec (take 2 (drop 11 (timestamp d))) = minute d"
    and "undec (take 2 (drop 13 (timestamp d))) = second d"
proof -
  have l2: "\<And>n. length (pad2 n) = 2" by (simp add: pad2_def)
  from assms(1) have b: "year d < 10000" "month d < 100" "day d < 100" "hour d < 100"
    "minute d < 100" "second d < 100" by (auto simp: valid_datetime_def)
  note t = timestamp_four [OF assms(2) b(1)]
  show "undec (take 4 (timestamp d)) = year d"
    using undec_four [OF b(1)] by (simp add: t del: undec.simps)
  show "undec (take 2 (drop 4 (timestamp d))) = month d"
    using undec_pad2 [OF b(2)] by (simp add: t l2 del: undec.simps)
  show "undec (take 2 (drop 6 (timestamp d))) = day d"
    using undec_pad2 [OF b(3)] by (simp add: t l2 del: undec.simps)
  show "timestamp d ! 8 = underscore"
    by (simp add: t pad2_def)
  show "undec (take 2 (drop 9 (timestamp d))) = hour d"
    using undec_pad2 [OF b(4)] by (simp add: t l2 del: undec.simps)
  show "undec (take 2 (drop 11 (timestamp d))) = minute d"
    using undec_pad2 [OF b(5)] by (simp add: t l2 del: undec.simps)
  show "undec (take 2 (drop 13 (timestamp d))) = second d"
    using undec_pad2 [OF b(6)] by (simp add: t l2 del: undec.simps)
qed

lemma timestamp_inj:
  assumes "valid_datetime a" "1000 \<le> year a" "valid_datetime b" "1000 \<le> year b"
    and "timestamp a = timestamp b"
  shows "same_second a b"
  using timestamp_fields(1,2,3,5,6,7) [OF assms(1,2)] timestamp_fields(1,2,3,5,6,7) [OF assms(3,4)]
    assms(5)
  by (simp add: same_second_def del: undec.simps)

lemma stored_name_eq:
  "splitext (sanitize u name0) = (b, e) \<Longrightarrow>
   stored_name u t name0 = b @ [underscore] @ timestamp t @ e"
  by (simp add: stored_name_def)

lemma stored_name_no_slash: "slash \<notin> set (stored_name u t name0)"
proof -
  obtain b e where be: "splitext (sanitize u name0) = (b, e)"
    by (cases "splitext (sanitize u name0)")
  from splitext_append [OF be] have "sanitize u name0 = b @ e" by simp
  then have "set (sanitize u name0) = set b \<union> set e" by simp
  with slash_notin_sanitize [of u name0]
  have "slash \<notin> set b" "slash \<notin> set e" by auto
  with timestamp_no_slash show ?thesis
    by (simp add: stored_name_eq [OF be] slash_def underscore_def)
qed

lemma underscore_in_stored_name: "underscore \<in> set (stored_name u t name0)"
  by (cases "splitext (sanitize u name0)") (simp add: stored_name_def)

lemma stored_name_not_special:
  "stored_name u t name0 \<noteq> [] \<and> stored_name u t name0 \<noteq> [dot]
   \<and> stored_name u t name0 \<noteq> dotdot"
  using underscore_in_stored_name [of u t name0]
  by (auto simp: dotdot_def dot_def underscore_def)



text \<open>
  C9, as the specification states it, fails: for the empty filename the base stays
  empty, and the stored filename is the underscore followed by the timestamp; no
  placeholder such as \<open>upload\<close> stands before it.
\<close>

theorem empty_filename_has_empty_base:
  "fst (splitext (sanitize no_table [])) = []
   \<and> stored_name no_table example_now [] = ustr ''_20240115_103000''"
  by (simp add: name_defs char_defs)

text \<open>
  C9, amended: for the empty filename the sanitized name and its base are empty, no
  placeholder is put in, and the stored filename is an underscore followed by the
  timestamp.
\<close>

theorem empty_filename_stored_name:
  "sanitize u [] = [] \<and> splitext (sanitize u []) = ([], [])
   \<and> stored_name u t [] = underscore # timestamp t"
  by (simp add: sanitize_def splitext_def rfind_def stored_name_def)

section \<open>The path of the stored file\<close>

lemmas path_defs =
  parse_path_def path_join_def path_str_def resolve_def collapse_step_def inside_def
  example_config_def

lemma split_on_clean: "sep \<notin> set s \<Longrightarrow> split_on sep s = [s]"
  by (induction s) auto

lemma parse_path_segment:
  "slash \<notin> set s \<Longrightarrow> s \<noteq> [] \<Longrightarrow> s \<noteq> [dot] \<Longrightarrow>
   parse_path s = \<lparr>absolute = False, parts = [s]\<rparr>"
  by (cases s) (auto simp: parse_path_def split_on_clean)

lemma path_join_segment:
  "slash \<notin> set s \<Longrightarrow> s \<noteq> [] \<Longrightarrow> s \<noteq> [dot] \<Longrightarrow>
   path_join p s = \<lparr>absolute = absolute p, parts = parts p @ [s]\<rparr>"
  by (simp add: path_join_def parse_path_segment)

lemma resolve_child:
  "s \<noteq> dotdot \<Longrightarrow>
   resolve wd \<lparr>absolute = absolute p, parts = parts p @ [s]\<rparr> = resolve wd p @ [s]"
  by (simp add: resolve_def collapse_step_def)

lemma inside_child: "inside d (d @ [s])"
  by (simp add: inside_def)

lemma path_join_stored_name:
  "path_join p (stored_name u t name0)
   = \<lparr>absolute = absolute p, parts = parts p @ [stored_name u t name0]\<rparr>"
  using stored_name_no_slash [of u t name0] stored_name_not_special [of u t name0]
  by (simp add: path_join_segment)

lemma resolve_stored_name:
  "resolve wd (path_join p (stored_name u t name0)) = resolve wd p @ [stored_name u t name0]"
  using stored_name_not_special [of u t name0]
  by (simp add: path_join_stored_name resolve_child)

text \<open>Saving a part answers with status 200 or 500.\<close>

lemma save_upload_status:
  "(\<exists>b. fst (save_upload cfg w fs item) = Response 200 b)
   \<or> (\<exists>b. fst (save_upload cfg w fs item) = Response 500 b)"
  by (auto simp: save_upload_def fail500_def Let_def split: option.splits prod.splits)

text \<open>
  C1, as the specification states it, fails: the sanitizer keeps dots, so the
  sanitized result of \<open>..\<close> is \<open>..\<close>, a path of the single segment \<open>..\<close>, and the
  sanitized result of \<open>../../etc/passwd\<close> still contains \<open>..\<close>.
\<close>

theorem sanitize_keeps_dotdot:
  "sanitize no_table (ustr ''..'') = ustr ''..''
   \<and> parts (parse_path (sanitize no_table (ustr ''..''))) = [dotdot]
   \<and> sanitize no_table (ustr ''../../etc/passwd'') = ustr ''.._.._etc_passwd''"
  by (simp add: name_defs char_defs parse_path_def)

text \<open>
  C1, amended: for every filename the sanitized name contains neither slash nor
  backslash (its dots are kept). The stored name, which also carries the underscore
  and the timestamp, contains no slash and is not empty, \<open>.\<close> or \<open>..\<close>; joined to the
  storage directory it adds exactly one part to it, and the canonical path of the
  result is the canonical path of the storage directory followed by the stored
  name, hence inside the directory. There is no check of the canonical path and no
  rejection of a filename: saving a part answers with status 200 or 500.
\<close>

theorem stored_path_inside_upload_dir:
  "slash \<notin> set (sanitize u name0) \<and> backslash \<notin> set (sanitize u name0)
   \<and> slash \<notin> set (stored_name u t name0)
   \<and> stored_name u t name0 \<noteq> [] \<and> stored_name u t name0 \<noteq> [dot]
   \<and> stored_name u t name0 \<noteq> dotdot
   \<and> path_join d (stored_name u t name0)
       = \<lparr>absolute = absolute d, parts = parts d @ [stored_name u t name0]\<rparr>
   \<and> resolve wd (path_join d (stored_name u t name0)) = resolve wd d @ [stored_name u t name0]
   \<and> inside (resolve wd d) (resolve wd (path_join d (stored_name u t name0)))
   \<and> ((\<exists>b. fst (save_upload cfg w fs item) = Response 200 b)
       \<or> (\<exists>b. fst (save_upload cfg w fs item) = Response 500 b))"
  using slash_notin_sanitize [of u name0] backslash_notin_sanitize [of u name0]
    stored_name_no_slash [of u t name0] stored_name_not_special [of u t name0]
    path_join_stored_name [of d u t name0] resolve_stored_name [of wd d u t name0]
    inside_child [of "resolve wd d" "stored_name u t name0"]
    save_upload_status [of cfg w fs item]
  by simp

section \<open>The upload endpoint\<close>

lemmas request_defs =
  example_part_def example_upload_def example_dir_def example_fs_def example_io_def
  header_content_type_def is_multipart_def file_parts_def

lemma example_upload_is_multipart: "is_multipart (example_upload flds)"
  by (simp add: is_multipart_def header_content_type_def example_upload_def ustr_def)

text \<open>\<open>sub in s\<close> holds exactly when \<open>sub\<close> stands somewhere in \<open>s\<close>.\<close>

lemma contains_iff: "contains sub s = (\<exists>pre post. s = pre @ sub @ post)"
proof (induction s)
  case Nil
  show ?case by simp
next
  case (Cons c cs)
  have a: "(take (length sub) (c # cs) = sub) = (\<exists>post. c # cs = sub @ post)"
    by (metis append_eq_conv_conj append_take_drop_id)
  have b: "(\<exists>pre post. c # cs = pre @ sub @ post)
           = ((\<exists>post. c # cs = sub @ post) \<or> (\<exists>pre post. cs = pre @ sub @ post))"
  proof
    assume "\<exists>pre post. c # cs = pre @ sub @ post"
    then obtain pre post where e: "c # cs = pre @ sub @ post" by blast
    show "(\<exists>post. c # cs = sub @ post) \<or> (\<exists>pre post. cs = pre @ sub @ post)"
    proof (cases pre)
      case Nil
      with e show ?thesis by auto
    next
      case (Cons x pre')
      with e have "cs = pre' @ sub @ post" by simp
      then show ?thesis by blast
    qed
  next
    assume "(\<exists>post. c # cs = sub @ post) \<or> (\<exists>pre post. cs = pre @ sub @ post)"
    then show "\<exists>pre post. c # cs = pre @ sub @ post"
    proof
      assume "\<exists>post. c # cs = sub @ post"
      then obtain post where "c # cs = [] @ sub @ post" by auto
      then show ?thesis by blast
    next
      assume "\<exists>pre post. cs = pre @ sub @ post"
      then obtain pre post where "c # cs = (c # pre) @ sub @ post" by auto
      then show ?thesis by blast
    qed
  qed
  from Cons a b show ?case by (simp del: take_Suc_Cons)
qed

lemma is_multipart_iff:
  "is_multipart req
   = (\<exists>pre post. content_type req = Some (pre @ ustr ''multipart/form-data'' @ post))"
proof (cases "content_type req")
  case None
  then show ?thesis
    by (simp add: is_multipart_def header_content_type_def) (simp add: ustr_def)
next
  case (Some c)
  then show ?thesis
    by (simp add: is_multipart_def header_content_type_def contains_iff)
qed

lemma do_POST_single_part:
  "path req = ustr ''/upload'' \<Longrightarrow> is_multipart req \<Longrightarrow> form req = Inr flds \<Longrightarrow>
   file_parts flds = [item] \<Longrightarrow> do_POST cfg w fs req = save_upload cfg w fs item"
  by (simp add: do_POST_def)

lemma do_POST_several_parts:
  "path req = ustr ''/upload'' \<Longrightarrow> is_multipart req \<Longrightarrow> form req = Inr flds \<Longrightarrow>
   file_parts flds = item # other # others \<Longrightarrow>
   do_POST cfg w fs req = (Response 500 (Json_failure (Str_of AttributeError)), fs)"
  by (simp add: do_POST_def fail500_def)

lemma file_parts_empty: "\<not> list_ex (\<lambda>f. field_name f = ustr ''file'') flds \<Longrightarrow> file_parts flds = []"
  by (induction flds) (auto simp: file_parts_def)

lemma file_parts_nonempty: "list_ex (\<lambda>f. field_name f = ustr ''file'') flds \<Longrightarrow> file_parts flds \<noteq> []"
  by (induction flds) (auto simp: file_parts_def)

lemma file_parts_member:
  "file_parts flds = item # others \<Longrightarrow> item \<in> set flds \<and> field_name item = ustr ''file''"
proof -
  assume "file_parts flds = item # others"
  then have "item \<in> set (filter (\<lambda>f. field_name f = ustr ''file'') flds)"
    by (simp add: file_parts_def)
  then show ?thesis by simp
qed

text \<open>
  C10, as the specification states it, fails: the handler looks for the text
  \<open>multipart/form-data\<close> in the header as it is written, in lower case. A POST that
  declares a multipart form in capital letters and carries a part named \<open>file\<close>
  without a filename is answered with status 400 and \<open>Invalid content type\<close>, not
  with status 500.
\<close>

theorem capitalised_multipart_answers_400:
  "declares_multipart capitalised_upload
   \<and> form capitalised_upload = Inr [example_part None (ustr ''hello'')]
   \<and> field_name (example_part None (ustr ''hello'')) = ustr ''file''
   \<and> filename (example_part None (ustr ''hello'')) = None
   \<and> do_POST example_config example_io example_fs capitalised_upload
       = (Response 400 (Json_failure (Text (ustr ''Invalid content type''))), example_fs)"
proof -
  have "declares_multipart capitalised_upload"
    by (simp add: declares_multipart_def media_type_def header_content_type_def
        capitalised_upload_def ascii_lower_def semicolon_def ustr_def)
  moreover have "\<not> is_multipart capitalised_upload"
    by (simp add: is_multipart_def header_content_type_def capitalised_upload_def ustr_def)
  moreover have "path capitalised_upload = ustr ''/upload''"
    by (simp add: capitalised_upload_def)
  ultimately show ?thesis
    by (simp add: do_POST_def) (simp add: capitalised_upload_def example_part_def)
qed

text \<open>
  C10, amended: for a POST to \<open>/upload\<close> whose \<open>Content-Type\<close> header contains the text
  \<open>multipart/form-data\<close> and whose parsed form has a field named \<open>file\<close>, when no field
  of that name has a filename, the answer is status 500 with the JSON failure of an
  exception, not the 400 answer \<open>No file provided\<close>, and the file system is left as it
  was. The exception is the \<open>TypeError\<close> that \<open>re.sub\<close> raises when exactly one field
  has that name and it has a file object; it is an \<open>AttributeError\<close> when that field
  has no file object, or when several fields have that name.
\<close>

theorem null_filename_answers_500:
  assumes "path req = ustr ''/upload''"
    and "content_type req = Some (pre @ ustr ''multipart/form-data'' @ post)"
    and "form req = Inr flds"
    and "list_ex (\<lambda>f. field_name f = ustr ''file'') flds"
    and "\<forall>f \<in> set flds. field_name f = ustr ''file'' \<longrightarrow> filename f = None"
  shows "\<exists>e. do_POST cfg w fs req = (Response 500 (Json_failure (Str_of e)), fs)
             \<and> (e = TypeError \<or> e = AttributeError)
             \<and> ((e = TypeError)
                  = (\<exists>item. filter (\<lambda>f. field_name f = ustr ''file'') flds = [item]
                            \<and> file_object item \<noteq> None))
             \<and> fst (do_POST cfg w fs req)
                 \<noteq> Response 400 (Json_failure (Text (ustr ''No file provided'')))"
proof (cases "file_parts flds")
  case Nil
  with file_parts_nonempty [OF assms(4)] show ?thesis by simp
next
  case (Cons item others)
  note fp = this
  from assms(2) have mp: "is_multipart req" unfolding is_multipart_iff by blast
  show ?thesis
  proof (cases others)
    case Nil
    with fp have one: "file_parts flds = [item]" by simp
    from file_parts_member [OF fp] assms(5) have nf: "filename item = None" by blast
    have post: "do_POST cfg w fs req = save_upload cfg w fs item"
      by (rule do_POST_single_part [OF assms(1) mp assms(3) one])
    show ?thesis
    proof (cases "file_object item")
      case None
      then have "do_POST cfg w fs req
                 = (Response 500 (Json_failure (Str_of AttributeError)), fs)"
        by (simp add: post save_upload_def fail500_def)
      moreover from one None
      have "\<not> (\<exists>i. filter (\<lambda>f. field_name f = ustr ''file'') flds = [i] \<and> file_object i \<noteq> None)"
        by (simp add: file_parts_def)
      ultimately show ?thesis by simp
    next
      case (Some data)
      with nf have "do_POST cfg w fs req
                 = (Response 500 (Json_failure (Str_of TypeError)), fs)"
        by (simp add: post save_upload_def fail500_def)
      moreover from one Some
      have "\<exists>i. filter (\<lambda>f. field_name f = ustr ''file'') flds = [i] \<and> file_object i \<noteq> None"
        by (simp add: file_parts_def)
      ultimately show ?thesis by simp
    qed
  next
    case (Cons other rest)
    with fp have two: "file_parts flds = item # other # rest" by simp
    have "do_POST cfg w fs req = (Response 500 (Json_failure (Str_of AttributeError)), fs)"
      by (rule do_POST_several_parts [OF assms(1) mp assms(3) two])
    moreover from two
    have "\<not> (\<exists>i. filter (\<lambda>f. field_name f = ustr ''file'') flds = [i] \<and> file_object i \<noteq> None)"
      by (simp add: file_parts_def)
    ultimately show ?thesis by simp
  qed
qed

theorem null_filename_answers_500_witness:
  "path (example_upload [example_part None (ustr ''hello'')]) = ustr ''/upload''
   \<and> content_type (example_upload [example_part None (ustr ''hello'')])
       = Some ([] @ ustr ''multipart/form-data'' @ ustr ''; boundary=x'')
   \<and> form (example_upload [example_part None (ustr ''hello'')])
       = Inr [example_part None (ustr ''hello'')]
   \<and> list_ex (\<lambda>f. field_name f = ustr ''file'') [example_part None (ustr ''hello'')]
   \<and> filename (example_part None (ustr ''hello'')) = None
   \<and> do_POST example_config example_io example_fs
        (example_upload [example_part None (ustr ''hello'')])
       = (Response 500 (Json_failure (Str_of TypeError)), example_fs)"
proof -
  let ?item = "example_part None (ustr ''hello'')"
  have 1: "path (example_upload [?item]) = ustr ''/upload''"
    by (simp add: example_upload_def)
  have 2: "content_type (example_upload [?item])
           = Some ([] @ ustr ''multipart/form-data'' @ ustr ''; boundary=x'')"
    by (simp add: example_upload_def ustr_def)
  have 3: "form (example_upload [?item]) = Inr [?item]"
    by (simp add: example_upload_def)
  have 4: "list_ex (\<lambda>f. field_name f = ustr ''file'') [?item]"
    by (simp add: example_part_def)
  have 5: "\<forall>f \<in> set [?item]. field_name f = ustr ''file'' \<longrightarrow> filename f = None"
    by (simp add: example_part_def)
  have 6: "filename ?item = None"
    by (simp add: example_part_def)
  have 7: "\<exists>item. filter (\<lambda>f. field_name f = ustr ''file'') [?item] = [item] \<and> file_object item \<noteq> None"
    by (simp add: example_part_def)
  from null_filename_answers_500 [OF 1 2 3 4 5, of example_config example_io example_fs] 7
  have "do_POST example_config example_io example_fs (example_upload [?item])
       = (Response 500 (Json_failure (Str_of TypeError)), example_fs)"
    by blast
  with 1 2 3 4 6 show ?thesis by blast
qed

text \<open>
  C5, as the specification states it, fails: the handler tests whether the header
  contains the text \<open>multipart/form-data\<close>, not whether the content type is that
  type. A POST whose content type is \<open>application/x-www-form-urlencoded\<close> with that
  text in a parameter, and whose body is \<open>file=abc\<close>, passes the test; its field
  \<open>file\<close> has no file object, and the answer is status 500, not 400.
\<close>

theorem content_type_parameter_answers_500:
  "media_type (header_content_type smuggled_request) = ustr ''application/x-www-form-urlencoded''
   \<and> \<not> declares_multipart smuggled_request
   \<and> do_POST example_config example_io example_fs smuggled_request
       = (Response 500 (Json_failure (Str_of AttributeError)), example_fs)"
proof -
  have m: "media_type (header_content_type smuggled_request)
           = ustr ''application/x-www-form-urlencoded''"
    by (simp add: media_type_def header_content_type_def
        smuggled_request_def ascii_lower_def semicolon_def ustr_def)
  then have d: "\<not> declares_multipart smuggled_request"
    by (simp add: declares_multipart_def) (simp add: ustr_def)
  have 1: "path smuggled_request = ustr ''/upload''"
    by (simp add: smuggled_request_def)
  have 2: "is_multipart smuggled_request"
    by (simp add: is_multipart_def header_content_type_def smuggled_request_def ustr_def)
  have 3: "form smuggled_request
           = Inr [\<lparr>field_name = ustr ''file'', filename = None, file_object = None\<rparr>]"
    by (simp add: smuggled_request_def)
  have 4: "file_parts [\<lparr>field_name = ustr ''file'', filename = None, file_object = None\<rparr>]
           = [\<lparr>field_name = ustr ''file'', filename = None, file_object = None\<rparr>]"
    by (simp add: file_parts_def)
  have "do_POST example_config example_io example_fs smuggled_request
        = (Response 500 (Json_failure (Str_of AttributeError)), example_fs)"
    by (simp add: do_POST_single_part [OF 1 2 3 4] save_upload_def fail500_def)
  with m d show ?thesis by simp
qed

text \<open>
  C5, amended: a POST to \<open>/upload\<close> that has no \<open>Content-Type\<close> header, or whose
  header does not contain the text \<open>multipart/form-data\<close> (the test the handler
  makes), is answered with status 400 and the JSON failure \<open>Invalid content
  type\<close>; a POST whose header contains it and whose parsed form has no field named
  \<open>file\<close> is answered with status 400 and the JSON failure \<open>No file provided\<close>. The
  file system is left as it was.
\<close>

theorem invalid_request_answers_400:
  assumes "path req = ustr ''/upload''"
  shows "(content_type req = None \<longrightarrow>
            do_POST cfg w fs req
              = (Response 400 (Json_failure (Text (ustr ''Invalid content type''))), fs))
         \<and> (content_type req = Some c
              \<and> (\<forall>pre post. c \<noteq> pre @ ustr ''multipart/form-data'' @ post) \<longrightarrow>
            do_POST cfg w fs req
              = (Response 400 (Json_failure (Text (ustr ''Invalid content type''))), fs))
         \<and> (content_type req = Some (pre @ ustr ''multipart/form-data'' @ post)
              \<and> form req = Inr flds
              \<and> \<not> list_ex (\<lambda>f. field_name f = ustr ''file'') flds \<longrightarrow>
            do_POST cfg w fs req
              = (Response 400 (Json_failure (Text (ustr ''No file provided''))), fs))"
proof -
  have a: "\<not> is_multipart req \<Longrightarrow>
           do_POST cfg w fs req
             = (Response 400 (Json_failure (Text (ustr ''Invalid content type''))), fs)"
    using assms by (simp add: do_POST_def)
  have b: "is_multipart req \<Longrightarrow> form req = Inr flds \<Longrightarrow>
           \<not> list_ex (\<lambda>f. field_name f = ustr ''file'') flds \<Longrightarrow>
           do_POST cfg w fs req
             = (Response 400 (Json_failure (Text (ustr ''No file provided''))), fs)"
    using assms by (simp add: do_POST_def file_parts_empty)
  have 1: "content_type req = None \<Longrightarrow> \<not> is_multipart req"
    by (simp add: is_multipart_iff)
  have 2: "content_type req = Some c
           \<Longrightarrow> \<forall>pre post. c \<noteq> pre @ ustr ''multipart/form-data'' @ post
           \<Longrightarrow> \<not> is_multipart req"
    by (simp add: is_multipart_iff)
  have 3: "content_type req = Some (pre @ ustr ''multipart/form-data'' @ post)
           \<Longrightarrow> is_multipart req"
    unfolding is_multipart_iff by blast
  from a b 1 2 3 show ?thesis by blast
qed

theorem invalid_request_answers_400_witness:
  "path \<lparr>path = ustr ''/upload'', content_type = Some (ustr ''application/json''),
          form = Inr []\<rparr> = ustr ''/upload''
   \<and> (\<forall>pre post. ustr ''application/json'' \<noteq> pre @ ustr ''multipart/form-data'' @ post)
   \<and> do_POST example_config example_io example_fs
        \<lparr>path = ustr ''/upload'', content_type = Some (ustr ''application/json''),
          form = Inr []\<rparr>
       = (Response 400 (Json_failure (Text (ustr ''Invalid content type''))), example_fs)
   \<and> content_type
        (example_upload [\<lparr>field_name = ustr ''note'', filename = None, file_object = Some []\<rparr>])
       = Some ([] @ ustr ''multipart/form-data'' @ ustr ''; boundary=x'')
   \<and> \<not> list_ex (\<lambda>f. field_name f = ustr ''file'')
          [\<lparr>field_name = ustr ''note'', filename = None, file_object = Some []\<rparr>]
   \<and> do_POST example_config example_io example_fs
        (example_upload [\<lparr>field_name = ustr ''note'', filename = None, file_object = Some []\<rparr>])
       = (Response 400 (Json_failure (Text (ustr ''No file provided''))), example_fs)"
proof -
  let ?r1 = "\<lparr>path = ustr ''/upload'', content_type = Some (ustr ''application/json''),
          form = (Inr [] :: py_exception + field list)\<rparr>"
  let ?f2 = "[\<lparr>field_name = ustr ''note'', filename = None, file_object = Some []\<rparr>]"
  have 1: "path ?r1 = ustr ''/upload''" by simp
  have "\<not> contains (ustr ''multipart/form-data'') (ustr ''application/json'')"
    by (simp add: ustr_def)
  then have 2: "\<forall>pre post. ustr ''application/json'' \<noteq> pre @ ustr ''multipart/form-data'' @ post"
    unfolding contains_iff by blast
  have c1: "content_type ?r1 = Some (ustr ''application/json'')" by simp
  have 3: "path (example_upload ?f2) = ustr ''/upload''" by (simp add: example_upload_def)
  have 4: "content_type (example_upload ?f2)
           = Some ([] @ ustr ''multipart/form-data'' @ ustr ''; boundary=x'')"
    by (simp add: example_upload_def ustr_def)
  have 5: "form (example_upload ?f2) = Inr ?f2" by (simp add: example_upload_def)
  have 6: "\<not> list_ex (\<lambda>f. field_name f = ustr ''file'') ?f2" by (simp add: ustr_def)
  from invalid_request_answers_400 [OF 1, where c = "ustr ''application/json''"
      and cfg = example_config and w = example_io and fs = example_fs] c1 2
  have a: "do_POST example_config example_io example_fs ?r1
       = (Response 400 (Json_failure (Text (ustr ''Invalid content type''))), example_fs)"
    by blast
  from invalid_request_answers_400 [OF 3, where pre = "[]" and post = "ustr ''; boundary=x''"
      and flds = ?f2 and cfg = example_config and w = example_io and fs = example_fs] 4 5 6
  have b: "do_POST example_config example_io example_fs (example_upload ?f2)
       = (Response 400 (Json_failure (Text (ustr ''No file provided''))), example_fs)"
    by blast
  from 1 2 4 6 a b show ?thesis by blast
qed

section \<open>Storing the upload\<close>

text \<open>
  Saving a field that has a file object and a filename: the directory is created,
  then the payload is written to the canonical path of the directory followed by
  the stored name, and the answer carries the string of the joined path.
\<close>

lemma save_upload_some:
  "file_object item = Some data \<Longrightarrow> filename item = Some name0 \<Longrightarrow>
   save_upload cfg w fs item =
     (case mkdir w fs (resolve (cwd cfg) (upload_dir cfg)) of
        (Some e, fs1) \<Rightarrow> (fail500 (OSError e), fs1)
      | (None, fs1) \<Rightarrow>
          (case write_bytes w fs1
                  (resolve (cwd cfg) (upload_dir cfg) @ [stored_name (uni cfg) (now w) name0])
                  data of
             (Some e, fs2) \<Rightarrow> (fail500 (OSError e), fs2)
           | (None, fs2) \<Rightarrow>
               (Response 200
                  (Json_success
                     (path_str \<lparr>absolute = absolute (upload_dir cfg),
                                parts = parts (upload_dir cfg) @ [stored_name (uni cfg) (now w) name0]\<rparr>)
                     (length data)),
                fs2)))"
  using stored_name_not_special [of "uni cfg" "now w" name0]
  by (simp add: save_upload_def Let_def path_join_stored_name resolve_child
      split: prod.splits option.splits)

lemma do_POST_upload:
  assumes "path req = ustr ''/upload''"
    and "content_type req = Some (pre @ ustr ''multipart/form-data'' @ post)"
    and "form req = Inr flds"
    and "filter (\<lambda>f. field_name f = ustr ''file'') flds = [item]"
  shows "do_POST cfg w fs req = save_upload cfg w fs item"
proof -
  from assms(2) have "is_multipart req" unfolding is_multipart_iff by blast
  with assms(1,3,4) show ?thesis by (simp add: do_POST_def file_parts_def)
qed

lemma write_bytes_ok:
  "fst (write_bytes w fs t data) = None \<Longrightarrow>
   snd (write_bytes w fs t data) = AList.update t (File data (mtime_now w)) fs"
  by (auto simp: write_bytes_def split: if_splits option.splits node.splits prod.splits)

lemma write_bytes_failed:
  "fst (write_bytes w fs t data) = Some e \<Longrightarrow>
   snd (write_bytes w fs t data) = fs
   \<or> (\<exists>k msg. write_fault w = Some (k, msg) \<and> e = Injected msg
        \<and> snd (write_bytes w fs t data) = AList.update t (File (take k data) (mtime_now w)) fs)"
  by (auto simp: write_bytes_def split: if_splits option.splits node.splits prod.splits)

lemma write_bytes_cases:
  "snd (write_bytes w fs t data) = fs
   \<or> (\<exists>k. snd (write_bytes w fs t data) = AList.update t (File (take k data) (mtime_now w)) fs)"
proof (cases "fst (write_bytes w fs t data)")
  case None
  then have "snd (write_bytes w fs t data)
             = AList.update t (File (take (length data) data) (mtime_now w)) fs"
    by (simp add: write_bytes_ok)
  then show ?thesis by blast
next
  case (Some e)
  then show ?thesis using write_bytes_failed [of w fs t data e] by blast
qed

lemma write_bytes_other:
  "p \<noteq> t \<Longrightarrow> map_of (snd (write_bytes w fs t data)) p = map_of fs p"
  using write_bytes_cases [of w fs t data] by (auto simp: update_conv')

lemma write_bytes_keeps_keys:
  "map_of fs p \<noteq> None \<Longrightarrow> map_of (snd (write_bytes w fs t data)) p \<noteq> None"
  using write_bytes_cases [of w fs t data] by (auto simp: update_conv')

lemma write_bytes_parent:
  "fst (write_bytes w fs t data) = None \<Longrightarrow> t \<noteq> [] \<and> node_at fs (butlast t) = Some Directory"
  by (auto simp: write_bytes_def split: if_splits option.splits node.splits prod.splits)

text \<open>Creating directories keeps what is there and adds directories only.\<close>

lemma mkdir_parents_preserves:
  "map_of fs p = Some v \<Longrightarrow> map_of (snd (mkdir_parents fault fs pre rest)) p = Some v"
  by (induction rest arbitrary: fault fs pre)
     (auto split: option.splits node.splits nat.splits prod.splits)

lemma mkdir_parents_only_dirs:
  "map_of (snd (mkdir_parents fault fs pre rest)) p = Some v \<Longrightarrow>
   map_of fs p = Some v \<or> (v = Directory \<and> length p \<le> length pre + length rest)"
proof (induction rest arbitrary: fault fs pre)
  case Nil
  then show ?case by (auto split: option.splits prod.splits)
next
  case (Cons s rest)
  show ?case
  proof (cases "map_of fs (pre @ [s])")
    case None
    note absent = this
    show ?thesis
    proof (cases fault)
      case None
      with absent Cons.prems
      have "map_of (snd (mkdir_parents None (fs @ [(pre @ [s], Directory)]) (pre @ [s]) rest)) p
            = Some v" by simp
      from Cons.IH [OF this] show ?thesis
        by (auto simp: map_add_Some_iff split: if_splits)
    next
      case (Some km)
      obtain k msg where km: "km = (k, msg)" by (cases km)
      show ?thesis
      proof (cases k)
        case 0
        with absent Some km Cons.prems show ?thesis by simp
      next
        case (Suc k')
        with absent Some km Cons.prems
        have "map_of (snd (mkdir_parents (Some (k', msg)) (fs @ [(pre @ [s], Directory)])
                             (pre @ [s]) rest)) p = Some v" by simp
        from Cons.IH [OF this] show ?thesis
          by (auto simp: map_add_Some_iff split: if_splits)
      qed
    qed
  next
    case (Some nd)
    show ?thesis
    proof (cases nd)
      case (File d m)
      with Some Cons.prems show ?thesis by simp
    next
      case Directory
      with Some Cons.prems
      have "map_of (snd (mkdir_parents fault fs (pre @ [s]) rest)) p = Some v" by simp
      from Cons.IH [OF this] show ?thesis by auto
    qed
  qed
qed

lemma mkdir_preserves:
  "map_of fs p = Some v \<Longrightarrow> map_of (snd (mkdir w fs d)) p = Some v"
  by (simp add: mkdir_def mkdir_parents_preserves)

lemma mkdir_only_dirs:
  "map_of (snd (mkdir w fs d)) p = Some v \<Longrightarrow>
   map_of fs p = Some v \<or> (v = Directory \<and> length p \<le> length d)"
  using mkdir_parents_only_dirs [of "mkdir_fault w" fs "[]" d p v] by (simp add: mkdir_def)

text \<open>The path below the directory is not one that directory creation touches.\<close>

lemma mkdir_keeps_child: "map_of (snd (mkdir w fs d)) (d @ [n]) = map_of fs (d @ [n])"
proof (cases "map_of fs (d @ [n])")
  case (Some v)
  then show ?thesis by (simp add: mkdir_preserves)
next
  case None
  show ?thesis
  proof (cases "map_of (snd (mkdir w fs d)) (d @ [n])")
    case None
    with \<open>map_of fs (d @ [n]) = None\<close> show ?thesis by simp
  next
    case (Some v)
    from mkdir_only_dirs [OF this] None show ?thesis by simp
  qed
qed

lemma listed_entries_member:
  "map_of fs (resolve (cwd cfg) (upload_dir cfg) @ [N]) = Some (File d m) \<Longrightarrow>
   (N, File d m) \<in> set (listed_entries cfg fs)"
proof -
  assume "map_of fs (resolve (cwd cfg) (upload_dir cfg) @ [N]) = Some (File d m)"
  then have "(resolve (cwd cfg) (upload_dir cfg) @ [N], File d m) \<in> set fs"
    by (rule map_of_SomeD)
  then have "(N, File d m) \<in> set (iterdir fs (resolve (cwd cfg) (upload_dir cfg)))"
    by (force simp: iterdir_def)
  then show ?thesis
    by (simp add: listed_entries_def sorted_reverse_def)
qed

text \<open>The example data evaluated.\<close>

lemma example_resolve: "resolve (cwd example_config) (upload_dir example_config) = example_dir"
  by (simp add: path_defs example_dir_def dotdot_def dot_def ustr_def)

lemma example_mkdir: "mkdir example_io example_fs example_dir = (None, example_fs)"
  by (simp add: mkdir_def example_io_def example_fs_def example_dir_def ustr_def)

lemma example_stored_name:
  "stored_name (uni example_config) t (ustr ''a.txt'')
   = ustr ''a_'' @ timestamp t @ ustr ''.txt''"
  by (simp add: example_config_def ustr_def sanitize_def rfind_def splitext_def
      name_before_dot.simps stored_name_def char_defs)

lemma example_timestamp: "timestamp example_now = ustr ''20240115_103000''"
  by (simp add: name_defs char_defs)

lemma example_target_eq:
  "now w = example_now \<Longrightarrow>
   example_dir @ [stored_name (uni example_config) (now w) (ustr ''a.txt'')] = example_target"
  by (simp add: example_stored_name example_timestamp example_target_def) (simp add: ustr_def)

lemma example_write:
  "open_fault w = None \<Longrightarrow> write_fault w = None \<Longrightarrow>
   write_bytes w example_fs example_target data
   = (None, example_fs @ [(example_target, File data (mtime_now w))])"
  by (simp add: write_bytes_def node_at_def example_fs_def example_dir_def example_target_def
      ustr_def)

lemma example_content_type:
  "content_type (example_upload flds)
   = Some ([] @ ustr ''multipart/form-data'' @ ustr ''; boundary=x'')"
  by (simp add: example_upload_def ustr_def)

lemma join_parts_snoc: "xs \<noteq> [] \<Longrightarrow> join_parts (xs @ [n]) = join_parts xs @ [slash] @ n"
  by (induction xs rule: join_parts.induct) simp_all

lemma path_str_child:
  "parts p \<noteq> [] \<Longrightarrow>
   path_str \<lparr>absolute = absolute p, parts = parts p @ [n]\<rparr> = path_str p @ [slash] @ n"
  by (simp add: path_str_def join_parts_snoc)

text \<open>
  C3, as the specification states it, fails. The reported path is the string of
  \<open>UPLOAD_DIR / filename\<close>, which is not made absolute: with the storage directory
  configured as the relative path \<open>uploads\<close>, an upload of three bytes succeeds and
  reports the relative path \<open>uploads/a_20240115_103000.txt\<close>. And an upload that
  declares its multipart form in capital letters is answered with status 400,
  although its field \<open>file\<close> carries a filename and a payload.
\<close>

theorem upload_reports_relative_path:
  "do_POST relative_config example_io relative_fs
     (example_upload [example_part (Some (ustr ''a.txt'')) [1, 2, 3]])
   = (Response 200 (Json_success (ustr ''uploads/a_20240115_103000.txt'') 3),
      relative_fs @ [([ustr ''srv'', ustr ''uploads'', ustr ''a_20240115_103000.txt''],
                      File [1, 2, 3] 1705314600)])
   \<and> hd (ustr ''uploads/a_20240115_103000.txt'') \<noteq> slash
   \<and> declares_multipart capitalised_file_upload
   \<and> do_POST example_config example_io example_fs capitalised_file_upload
       = (Response 400 (Json_failure (Text (ustr ''Invalid content type''))), example_fs)"
proof -
  let ?item = "example_part (Some (ustr ''a.txt'')) [1, 2, 3]"
  have n: "stored_name no_table example_now (ustr ''a.txt'') = ustr ''a_20240115_103000.txt''"
    by (simp add: name_defs char_defs)
  have p: "file_parts [?item] = [?item]"
    by (simp add: file_parts_def example_part_def)
  have "save_upload relative_config example_io relative_fs ?item
        = (Response 200 (Json_success (ustr ''uploads/a_20240115_103000.txt'') 3),
           relative_fs @ [([ustr ''srv'', ustr ''uploads'', ustr ''a_20240115_103000.txt''],
                      File [1, 2, 3] 1705314600)])"
    by (simp add: save_upload_def relative_config_def example_config_def example_io_def
        example_part_def n Let_def)
       (simp add: path_defs mkdir_def write_bytes_def node_at_def relative_fs_def dotdot_def
        dot_def slash_def ustr_def)
  moreover have "do_POST relative_config example_io relative_fs (example_upload [?item])
        = save_upload relative_config example_io relative_fs ?item"
    by (rule do_POST_single_part [OF _ example_upload_is_multipart _ p])
       (simp_all add: example_upload_def)
  moreover have "hd (ustr ''uploads/a_20240115_103000.txt'') \<noteq> slash"
    by (simp add: ustr_def slash_def)
  moreover have "declares_multipart capitalised_file_upload"
    by (simp add: declares_multipart_def media_type_def header_content_type_def
        capitalised_file_upload_def ascii_lower_def semicolon_def ustr_def)
  moreover have "do_POST example_config example_io example_fs capitalised_file_upload
       = (Response 400 (Json_failure (Text (ustr ''Invalid content type''))), example_fs)"
  proof -
    have "\<not> is_multipart capitalised_file_upload"
      by (simp add: is_multipart_def header_content_type_def capitalised_file_upload_def
          ustr_def)
    moreover have "path capitalised_file_upload = ustr ''/upload''"
      by (simp add: capitalised_file_upload_def)
    ultimately show ?thesis by (simp add: do_POST_def)
  qed
  ultimately show ?thesis by simp
qed

text \<open>
  C3, amended: for a POST to \<open>/upload\<close> whose \<open>Content-Type\<close> header contains the text
  \<open>multipart/form-data\<close> and whose parsed form has exactly one field named \<open>file\<close>,
  with a file object and a filename, when the directory creation and the write
  succeed, the answer is status 200 with a success body whose size is the length of
  the payload and whose path is the string of the storage directory's path joined
  with the stored name: the string of the storage directory, a slash and the stored
  name. It starts with a slash when the configured storage directory is absolute,
  and is a relative path otherwise. The
  file at the canonical location of that path holds exactly the payload, so its
  size is the reported one, and the listing's entries include it. An empty payload
  is stored as a file of size zero.
\<close>

theorem upload_success:
  assumes "path req = ustr ''/upload''"
    and "content_type req = Some (pre @ ustr ''multipart/form-data'' @ post)"
    and "form req = Inr flds"
    and "filter (\<lambda>f. field_name f = ustr ''file'') flds = [item]"
    and "file_object item = Some data" and "filename item = Some name0"
    and "D = resolve (cwd cfg) (upload_dir cfg)"
    and "N = stored_name (uni cfg) (now w) name0"
    and "mkdir w fs D = (None, fs1)"
    and "fst (write_bytes w fs1 (D @ [N]) data) = None"
  shows "fst (do_POST cfg w fs req)
           = Response 200 (Json_success (path_str (path_join (upload_dir cfg) N)) (length data))
         \<and> path_join (upload_dir cfg) N
             = \<lparr>absolute = absolute (upload_dir cfg), parts = parts (upload_dir cfg) @ [N]\<rparr>
         \<and> (parts (upload_dir cfg) \<noteq> [] \<longrightarrow>
               path_str (path_join (upload_dir cfg) N) = path_str (upload_dir cfg) @ [slash] @ N)
         \<and> (absolute (upload_dir cfg) \<longrightarrow>
               hd (path_str (path_join (upload_dir cfg) N)) = slash)
         \<and> resolve (cwd cfg) (path_join (upload_dir cfg) N) = D @ [N]
         \<and> node_at (snd (do_POST cfg w fs req)) (D @ [N]) = Some (File data (mtime_now w))
         \<and> st_size (File data (mtime_now w)) = length data
         \<and> (N, File data (mtime_now w)) \<in> set (listed_entries cfg (snd (do_POST cfg w fs req)))"
proof -
  let ?fs2 = "AList.update (D @ [N]) (File data (mtime_now w)) fs1"
  have w2: "write_bytes w fs1 (D @ [N]) data = (None, ?fs2)"
    using assms(10) write_bytes_ok [OF assms(10)] by (simp add: prod_eq_iff)
  have pj: "path_join (upload_dir cfg) N
             = \<lparr>absolute = absolute (upload_dir cfg), parts = parts (upload_dir cfg) @ [N]\<rparr>"
    unfolding assms(8) by (rule path_join_stored_name)
  have rs: "resolve (cwd cfg) (path_join (upload_dir cfg) N) = D @ [N]"
    unfolding assms(7,8) by (rule resolve_stored_name)
  have post: "do_POST cfg w fs req
        = (Response 200 (Json_success (path_str (path_join (upload_dir cfg) N)) (length data)),
           ?fs2)"
    using assms(7,8,9) w2 pj
    by (simp add: do_POST_upload [OF assms(1-4)] save_upload_some [OF assms(5,6)])
  have m: "map_of ?fs2 (D @ [N]) = Some (File data (mtime_now w))"
    by (simp add: update_conv')
  then have l: "(N, File data (mtime_now w)) \<in> set (listed_entries cfg ?fs2)"
    unfolding assms(7) by (rule listed_entries_member)
  from m have nd: "node_at ?fs2 (D @ [N]) = Some (File data (mtime_now w))"
    by (simp add: node_at_def)
  have ch: "parts (upload_dir cfg) \<noteq> [] \<Longrightarrow>
            path_str (path_join (upload_dir cfg) N) = path_str (upload_dir cfg) @ [slash] @ N"
    by (simp add: pj path_str_child)
  have ab: "absolute (upload_dir cfg) \<Longrightarrow>
            hd (path_str (path_join (upload_dir cfg) N)) = slash"
    by (simp add: pj path_str_def)
  show ?thesis
    using pj rs nd l ch ab by (simp add: post)
qed

theorem upload_success_witness:
  "path (example_upload [example_part (Some (ustr ''a.txt'')) []]) = ustr ''/upload''
   \<and> content_type (example_upload [example_part (Some (ustr ''a.txt'')) []])
       = Some ([] @ ustr ''multipart/form-data'' @ ustr ''; boundary=x'')
   \<and> filter (\<lambda>f. field_name f = ustr ''file'') [example_part (Some (ustr ''a.txt'')) []]
       = [example_part (Some (ustr ''a.txt'')) []]
   \<and> file_object (example_part (Some (ustr ''a.txt'')) []) = Some []
   \<and> mkdir example_io example_fs example_dir = (None, example_fs)
   \<and> fst (write_bytes example_io example_fs example_target []) = None
   \<and> fst (do_POST example_config example_io example_fs
             (example_upload [example_part (Some (ustr ''a.txt'')) []]))
       = Response 200 (Json_success (ustr ''/home/claude/share/a_20240115_103000.txt'') 0)
   \<and> node_at (snd (do_POST example_config example_io example_fs
                      (example_upload [example_part (Some (ustr ''a.txt'')) []])))
         example_target
       = Some (File [] 1705314600)
   \<and> st_size (File [] 1705314600) = 0"
proof -
  let ?item = "example_part (Some (ustr ''a.txt'')) []"
  let ?N = "stored_name (uni example_config) (now example_io) (ustr ''a.txt'')"
  have 1: "path (example_upload [?item]) = ustr ''/upload''" by (simp add: example_upload_def)
  note 2 = example_content_type [of "[?item]"]
  have 3: "form (example_upload [?item]) = Inr [?item]" by (simp add: example_upload_def)
  have 4: "filter (\<lambda>f. field_name f = ustr ''file'') [?item] = [?item]"
    by (simp add: example_part_def)
  have 5: "file_object ?item = Some []" by (simp add: example_part_def)
  have 6: "filename ?item = Some (ustr ''a.txt'')" by (simp add: example_part_def)
  have 7: "example_dir = resolve (cwd example_config) (upload_dir example_config)"
    by (simp add: example_resolve)
  have t: "example_dir @ [?N] = example_target"
    by (rule example_target_eq) (simp add: example_io_def)
  have 9: "mkdir example_io example_fs example_dir = (None, example_fs)" by (rule example_mkdir)
  have w: "fst (write_bytes example_io example_fs example_target []) = None"
    using example_write [of example_io "[]"] by (simp add: example_io_def)
  then have 10: "fst (write_bytes example_io example_fs (example_dir @ [?N]) []) = None"
    by (simp add: t)
  have n: "?N = ustr ''a_20240115_103000.txt''"
    using t by (simp add: example_target_def)
  have s: "path_str (path_join (upload_dir example_config) (ustr ''a_20240115_103000.txt''))
           = ustr ''/home/claude/share/a_20240115_103000.txt''"
    by (simp add: path_defs ustr_def slash_def dot_def split_on_clean)
  have m: "mtime_now example_io = 1705314600" by (simp add: example_io_def)
  from upload_success [OF 1 2 3 4 5 6 7 refl 9 10] 1 2 4 5 9 w
  show ?thesis by (simp add: s m n example_target_def)
qed

section \<open>Storage failures\<close>

text \<open>
  C6, as the specification states it, fails in its second half: the payload is
  written to the final name directly. When the write fails after two of three bytes
  (the disk is full), the answer is status 500 and a file that did not exist before
  is left under its final name with the two bytes written so far.
\<close>

theorem failed_write_leaves_partial_file:
  "do_POST example_config full_disk_io example_fs
     (example_upload [example_part (Some (ustr ''a.txt'')) [10, 20, 30]])
   = (Response 500 (Json_failure (Str_of (OSError (Injected ''No space left on device'')))),
      example_fs @ [(example_target, File [10, 20] 1705314600)])
   \<and> node_at example_fs example_target = None
   \<and> node_at (example_fs @ [(example_target, File [10, 20] 1705314600)]) example_target
       = Some (File [10, 20] 1705314600)
   \<and> [10, 20] \<noteq> [10, 20, 30::nat]"
proof -
  let ?item = "example_part (Some (ustr ''a.txt'')) [10, 20, 30]"
  have p: "file_parts [?item] = [?item]" by (simp add: file_parts_def example_part_def)
  have 5: "file_object ?item = Some [10, 20, 30]" by (simp add: example_part_def)
  have 6: "filename ?item = Some (ustr ''a.txt'')" by (simp add: example_part_def)
  have t: "example_dir @ [stored_name (uni example_config) (now full_disk_io) (ustr ''a.txt'')]
           = example_target"
    by (rule example_target_eq) (simp add: full_disk_io_def example_io_def)
  have k: "mkdir full_disk_io example_fs example_dir = (None, example_fs)"
    by (simp add: mkdir_def full_disk_io_def example_io_def example_fs_def example_dir_def ustr_def)
  have w: "write_bytes full_disk_io example_fs example_target [10, 20, 30]
           = (Some (Injected ''No space left on device''),
              example_fs @ [(example_target, File [10, 20] 1705314600)])"
    by (simp add: write_bytes_def node_at_def example_fs_def example_dir_def example_target_def
      full_disk_io_def example_io_def ustr_def)
  have "do_POST example_config full_disk_io example_fs (example_upload [?item])
        = save_upload example_config full_disk_io example_fs ?item"
    by (rule do_POST_single_part [OF _ example_upload_is_multipart _ p])
       (simp_all add: example_upload_def)
  also have "\<dots> = (Response 500
                      (Json_failure (Str_of (OSError (Injected ''No space left on device'')))),
                    example_fs @ [(example_target, File [10, 20] 1705314600)])"
    by (subst save_upload_some [OF 5 6]) (simp add: example_resolve k t w fail500_def)
  finally have a: "do_POST example_config full_disk_io example_fs (example_upload [?item])
     = (Response 500 (Json_failure (Str_of (OSError (Injected ''No space left on device'')))),
        example_fs @ [(example_target, File [10, 20] 1705314600)])" .
  have b: "node_at example_fs example_target = None"
    by (simp add: node_at_def example_fs_def example_dir_def example_target_def ustr_def)
  have c: "node_at (example_fs @ [(example_target, File [10, 20] 1705314600)]) example_target
       = Some (File [10, 20] 1705314600)"
    by (simp add: node_at_def example_fs_def example_dir_def example_target_def ustr_def)
  from a b c show ?thesis by simp
qed

text \<open>
  C6, amended: for a POST to \<open>/upload\<close> whose \<open>Content-Type\<close> header contains the text
  \<open>multipart/form-data\<close> and whose parsed form has exactly one field named \<open>file\<close>,
  with a file object and a filename: a failure of the directory creation is
  answered with status 500 and the JSON failure carrying the error's message; it
  leaves every entry of the file system as it was, adds directories at most, and
  leaves the final name of the upload as it was. A failure of the write is answered
  in the same way, and the file system is then either as the directory creation
  left it, or holds under the final name a file with the first bytes of the
  payload, as many as reached the file before the write failed.
\<close>

theorem storage_failure_answers_500:
  assumes "path req = ustr ''/upload''"
    and "content_type req = Some (pre @ ustr ''multipart/form-data'' @ post)"
    and "form req = Inr flds"
    and "filter (\<lambda>f. field_name f = ustr ''file'') flds = [item]"
    and "file_object item = Some data" and "filename item = Some name0"
    and "D = resolve (cwd cfg) (upload_dir cfg)"
    and "T = D @ [stored_name (uni cfg) (now w) name0]"
  shows "(mkdir w fs D = (Some e, fs1) \<longrightarrow>
            do_POST cfg w fs req = (Response 500 (Json_failure (Str_of (OSError e))), fs1)
            \<and> map_of fs1 T = map_of fs T
            \<and> (\<forall>p v. map_of fs p = Some v \<longrightarrow> map_of fs1 p = Some v)
            \<and> (\<forall>p v. map_of fs1 p = Some v \<longrightarrow> map_of fs p = Some v \<or> v = Directory))
         \<and> (mkdir w fs D = (None, fs1) \<and> fst (write_bytes w fs1 T data) = Some e \<longrightarrow>
              fst (do_POST cfg w fs req) = Response 500 (Json_failure (Str_of (OSError e)))
              \<and> (snd (do_POST cfg w fs req) = fs1
                  \<or> (\<exists>k msg. write_fault w = Some (k, msg) \<and> e = Injected msg
                        \<and> snd (do_POST cfg w fs req)
                            = AList.update T (File (take k data) (mtime_now w)) fs1
                        \<and> map_of (snd (do_POST cfg w fs req)) T
                            = Some (File (take k data) (mtime_now w)))))"
proof -
  have post: "do_POST cfg w fs req = save_upload cfg w fs item"
    by (rule do_POST_upload [OF assms(1-4)])
  have a: "do_POST cfg w fs req = (Response 500 (Json_failure (Str_of (OSError e))), fs1)
           \<and> map_of fs1 T = map_of fs T
           \<and> (\<forall>p v. map_of fs p = Some v \<longrightarrow> map_of fs1 p = Some v)
           \<and> (\<forall>p v. map_of fs1 p = Some v \<longrightarrow> map_of fs p = Some v \<or> v = Directory)"
    if mk: "mkdir w fs D = (Some e, fs1)"
  proof -
    from mk have s1: "snd (mkdir w fs D) = fs1" by simp
    have "do_POST cfg w fs req = (Response 500 (Json_failure (Str_of (OSError e))), fs1)"
      using assms(7) mk by (simp add: post save_upload_some [OF assms(5,6)] fail500_def)
    moreover have "map_of fs1 T = map_of fs T"
      using mkdir_keeps_child [of w fs D] s1 assms(8) by simp
    moreover have "\<forall>p v. map_of fs p = Some v \<longrightarrow> map_of fs1 p = Some v"
      using mkdir_preserves [of fs _ _ w D] s1 by simp
    moreover have "\<forall>p v. map_of fs1 p = Some v \<longrightarrow> map_of fs p = Some v \<or> v = Directory"
      using mkdir_only_dirs [of w fs D] s1 by auto
    ultimately show ?thesis by blast
  qed
  have b: "fst (do_POST cfg w fs req) = Response 500 (Json_failure (Str_of (OSError e)))
           \<and> snd (do_POST cfg w fs req) = snd (write_bytes w fs1 T data)"
    if "mkdir w fs D = (None, fs1)" and "fst (write_bytes w fs1 T data) = Some e"
  proof -
    from that(2) obtain fs2 where "write_bytes w fs1 T data = (Some e, fs2)"
      by (cases "write_bytes w fs1 T data") simp
    with that(1) assms(7,8) show ?thesis
      by (simp add: post save_upload_some [OF assms(5,6)] fail500_def)
  qed
  have c: "map_of (AList.update T (File (take k data) (mtime_now w)) fs1) T
           = Some (File (take k data) (mtime_now w))" for k
    by (simp add: update_conv')
  show ?thesis
    using a b c write_bytes_failed [of w fs1 T data e] by auto
qed

theorem storage_failure_answers_500_witness:
  "path (example_upload [example_part (Some (ustr ''a.txt'')) [7, 8, 9]]) = ustr ''/upload''
   \<and> content_type (example_upload [example_part (Some (ustr ''a.txt'')) [7, 8, 9]])
       = Some ([] @ ustr ''multipart/form-data'' @ ustr ''; boundary=x'')
   \<and> filter (\<lambda>f. field_name f = ustr ''file'') [example_part (Some (ustr ''a.txt'')) [7, 8, 9]]
       = [example_part (Some (ustr ''a.txt'')) [7, 8, 9]]
   \<and> mkdir no_permission_io example_fs example_dir
       = (Some (Injected ''Permission denied''), example_fs)
   \<and> do_POST example_config no_permission_io example_fs
        (example_upload [example_part (Some (ustr ''a.txt'')) [7, 8, 9]])
       = (Response 500 (Json_failure (Str_of (OSError (Injected ''Permission denied'')))),
          example_fs)
   \<and> mkdir full_disk_io example_fs example_dir = (None, example_fs)
   \<and> fst (write_bytes full_disk_io example_fs example_target [7, 8, 9])
       = Some (Injected ''No space left on device'')
   \<and> fst (do_POST example_config full_disk_io example_fs
             (example_upload [example_part (Some (ustr ''a.txt'')) [7, 8, 9]]))
       = Response 500 (Json_failure (Str_of (OSError (Injected ''No space left on device''))))"
proof -
  let ?item = "example_part (Some (ustr ''a.txt'')) [7, 8, 9]"
  have 1: "path (example_upload [?item]) = ustr ''/upload''" by (simp add: example_upload_def)
  note 2 = example_content_type [of "[?item]"]
  have 3: "form (example_upload [?item]) = Inr [?item]" by (simp add: example_upload_def)
  have 4: "filter (\<lambda>f. field_name f = ustr ''file'') [?item] = [?item]"
    by (simp add: example_part_def)
  have 5: "file_object ?item = Some [7, 8, 9]" by (simp add: example_part_def)
  have 6: "filename ?item = Some (ustr ''a.txt'')" by (simp add: example_part_def)
  have 7: "example_dir = resolve (cwd example_config) (upload_dir example_config)"
    by (simp add: example_resolve)
  have 8: "example_target
           = example_dir @ [stored_name (uni example_config) (now no_permission_io) (ustr ''a.txt'')]"
    by (rule example_target_eq [symmetric]) (simp add: no_permission_io_def example_io_def)
  have 9: "example_target
           = example_dir @ [stored_name (uni example_config) (now full_disk_io) (ustr ''a.txt'')]"
    by (rule example_target_eq [symmetric]) (simp add: full_disk_io_def example_io_def)
  have a: "mkdir no_permission_io example_fs example_dir
           = (Some (Injected ''Permission denied''), example_fs)"
    by (simp add: mkdir_def no_permission_io_def example_io_def example_fs_def example_dir_def
        ustr_def)
  have k: "mkdir full_disk_io example_fs example_dir = (None, example_fs)"
    by (simp add: mkdir_def full_disk_io_def example_io_def example_fs_def example_dir_def ustr_def)
  have w: "fst (write_bytes full_disk_io example_fs example_target [7, 8, 9])
           = Some (Injected ''No space left on device'')"
    by (simp add: write_bytes_def node_at_def example_fs_def example_dir_def example_target_def
      full_disk_io_def example_io_def ustr_def)
  from storage_failure_answers_500 [OF 1 2 3 4 5 6 7 8,
      where e = "Injected ''Permission denied''" and fs = example_fs and ?fs1.0 = example_fs] a
  have r1: "do_POST example_config no_permission_io example_fs (example_upload [?item])
       = (Response 500 (Json_failure (Str_of (OSError (Injected ''Permission denied'')))),
          example_fs)"
    by blast
  from storage_failure_answers_500 [OF 1 2 3 4 5 6 7 9,
      where e = "Injected ''No space left on device''" and fs = example_fs
        and ?fs1.0 = example_fs] k w
  have r2: "fst (do_POST example_config full_disk_io example_fs (example_upload [?item]))
       = Response 500 (Json_failure (Str_of (OSError (Injected ''No space left on device''))))"
    by blast
  from 1 2 4 a k w r1 r2 show ?thesis by blast
qed

section \<open>Stored files under later requests\<close>

lemma save_upload_keeps:
  assumes "map_of fs p = Some v"
    and "\<forall>name0. filename item = Some name0 \<longrightarrow>
           p \<noteq> resolve (cwd cfg) (upload_dir cfg) @ [stored_name (uni cfg) (now w) name0]"
  shows "map_of (snd (save_upload cfg w fs item)) p = Some v"
proof (cases "file_object item")
  case None
  with assms(1) show ?thesis by (simp add: save_upload_def)
next
  case (Some data)
  note fo = this
  show ?thesis
  proof (cases "filename item")
    case None
    with fo assms(1) show ?thesis by (simp add: save_upload_def)
  next
    case (Some name0)
    let ?D = "resolve (cwd cfg) (upload_dir cfg)"
    let ?T = "?D @ [stored_name (uni cfg) (now w) name0]"
    from assms(2) Some have ne: "p \<noteq> ?T" by blast
    obtain r1 fs1 where mk: "mkdir w fs ?D = (r1, fs1)" by (cases "mkdir w fs ?D")
    from mkdir_preserves [OF assms(1), of w ?D] mk have m1: "map_of fs1 p = Some v" by simp
    obtain r2 fs2 where wr: "write_bytes w fs1 ?T data = (r2, fs2)"
      by (cases "write_bytes w fs1 ?T data")
    from write_bytes_other [OF ne, of w fs1 data] wr m1 have m2: "map_of fs2 p = Some v" by simp
    from mk wr m1 m2 show ?thesis
      by (simp add: save_upload_some [OF fo Some] split: option.splits)
  qed
qed

lemma save_upload_never_deletes:
  assumes "map_of fs p \<noteq> None"
  shows "map_of (snd (save_upload cfg w fs item)) p \<noteq> None"
proof (cases "file_object item")
  case None
  with assms show ?thesis by (simp add: save_upload_def)
next
  case (Some data)
  note fo = this
  show ?thesis
  proof (cases "filename item")
    case None
    with fo assms show ?thesis by (simp add: save_upload_def)
  next
    case (Some name0)
    let ?D = "resolve (cwd cfg) (upload_dir cfg)"
    let ?T = "?D @ [stored_name (uni cfg) (now w) name0]"
    from assms obtain v where v: "map_of fs p = Some v" by blast
    obtain r1 fs1 where mk: "mkdir w fs ?D = (r1, fs1)" by (cases "mkdir w fs ?D")
    from mkdir_preserves [OF v, of w ?D] mk have m1: "map_of fs1 p \<noteq> None" by simp
    obtain r2 fs2 where wr: "write_bytes w fs1 ?T data = (r2, fs2)"
      by (cases "write_bytes w fs1 ?T data")
    from write_bytes_keeps_keys [OF m1, of w ?T data] wr have m2: "map_of fs2 p \<noteq> None" by simp
    from mk wr m1 m2 show ?thesis
      by (simp add: save_upload_some [OF fo Some] split: option.splits)
  qed
qed

lemma do_POST_fs:
  "snd (do_POST cfg w fs req) = fs
   \<or> (\<exists>flds item. form req = Inr flds \<and> file_parts flds = [item]
         \<and> snd (do_POST cfg w fs req) = snd (save_upload cfg w fs item))"
  by (auto simp: do_POST_def split: sum.splits list.splits)

lemma do_POST_keeps:
  assumes "map_of fs p = Some v"
    and "\<forall>flds item name0.
           form req = Inr flds \<and> item \<in> set flds \<and> field_name item = ustr ''file''
           \<and> filename item = Some name0 \<longrightarrow>
           p \<noteq> resolve (cwd cfg) (upload_dir cfg) @ [stored_name (uni cfg) (now w) name0]"
  shows "map_of (snd (do_POST cfg w fs req)) p = Some v"
proof -
  from do_POST_fs [of cfg w fs req] show ?thesis
  proof
    assume "snd (do_POST cfg w fs req) = fs"
    with assms(1) show ?thesis by simp
  next
    assume "\<exists>flds item. form req = Inr flds \<and> file_parts flds = [item]
         \<and> snd (do_POST cfg w fs req) = snd (save_upload cfg w fs item)"
    then obtain flds item where f: "form req = Inr flds" "file_parts flds = [item]"
      and s: "snd (do_POST cfg w fs req) = snd (save_upload cfg w fs item)" by blast
    from file_parts_member [OF f(2)] f(1) assms(2)
    have "\<forall>name0. filename item = Some name0 \<longrightarrow>
           p \<noteq> resolve (cwd cfg) (upload_dir cfg) @ [stored_name (uni cfg) (now w) name0]"
      by blast
    from save_upload_keeps [OF assms(1) this] s show ?thesis by simp
  qed
qed

lemma do_POST_never_deletes:
  "map_of fs p \<noteq> None \<Longrightarrow> map_of (snd (do_POST cfg w fs req)) p \<noteq> None"
  using do_POST_fs [of cfg w fs req] save_upload_never_deletes [of fs p cfg w] by auto

lemma serve_never_deletes:
  "map_of fs p \<noteq> None \<Longrightarrow> map_of (serve cfg fs reqs) p \<noteq> None"
proof (induction reqs arbitrary: fs)
  case Nil
  then show ?case by simp
next
  case (Cons x reqs)
  obtain w m req where x: "x = (w, m, req)" by (cases x)
  from Cons.prems have "map_of (snd (handle cfg w fs m req)) p \<noteq> None"
    by (cases m) (simp_all add: do_POST_never_deletes)
  from Cons.IH [OF this] x show ?case by simp
qed

lemma serve_keeps:
  assumes "\<forall>(w, m, req) \<in> set reqs. \<forall>flds item name0.
             m = POST \<and> form req = Inr flds \<and> item \<in> set flds
             \<and> field_name item = ustr ''file'' \<and> filename item = Some name0 \<longrightarrow>
             p \<noteq> resolve (cwd cfg) (upload_dir cfg) @ [stored_name (uni cfg) (now w) name0]"
    and "map_of fs p = Some v"
  shows "map_of (serve cfg fs reqs) p = Some v"
  using assms
proof (induction reqs arbitrary: fs)
  case Nil
  then show ?case by simp
next
  case (Cons x reqs)
  obtain w m req where x: "x = (w, m, req)" by (cases x)
  have "map_of (snd (handle cfg w fs m req)) p = Some v"
  proof (cases m)
    case GET
    with Cons.prems(2) show ?thesis by simp
  next
    case POST
    with Cons.prems(1) x
    have "\<forall>flds item name0.
           form req = Inr flds \<and> item \<in> set flds \<and> field_name item = ustr ''file''
           \<and> filename item = Some name0 \<longrightarrow>
           p \<noteq> resolve (cwd cfg) (upload_dir cfg) @ [stored_name (uni cfg) (now w) name0]"
      by simp blast
    from do_POST_keeps [OF Cons.prems(2) this] POST show ?thesis by simp
  qed
  moreover from Cons.prems(1) have "\<forall>(w, m, req) \<in> set reqs. \<forall>flds item name0.
             m = POST \<and> form req = Inr flds \<and> item \<in> set flds
             \<and> field_name item = ustr ''file'' \<and> filename item = Some name0 \<longrightarrow>
             p \<noteq> resolve (cwd cfg) (upload_dir cfg) @ [stored_name (uni cfg) (now w) name0]"
    by simp
  ultimately show ?case using Cons.IH x by simp
qed

text \<open>The stored names of one filename at clock readings of different seconds differ.\<close>

lemma stored_name_distinct:
  assumes "valid_datetime t1" "1000 \<le> year t1" "valid_datetime t2" "1000 \<le> year t2"
    and "\<not> same_second t1 t2"
  shows "stored_name u t1 name0 \<noteq> stored_name u t2 name0"
proof
  assume e: "stored_name u t1 name0 = stored_name u t2 name0"
  obtain b x where be: "splitext (sanitize u name0) = (b, x)"
    by (cases "splitext (sanitize u name0)")
  from e have "timestamp t1 = timestamp t2"
    by (simp add: stored_name_eq [OF be])
  from timestamp_inj [OF assms(1-4) this] assms(5) show False by simp
qed

text \<open>An upload answered with status 200 has stored its payload under its stored name.\<close>

lemma upload_200_stored:
  assumes "path req = ustr ''/upload''"
    and "content_type req = Some (pre @ ustr ''multipart/form-data'' @ post)"
    and "form req = Inr flds"
    and "filter (\<lambda>f. field_name f = ustr ''file'') flds = [item]"
    and "file_object item = Some data" and "filename item = Some name0"
    and "fst (do_POST cfg w fs req) = Response 200 b"
  shows "map_of (snd (do_POST cfg w fs req))
           (resolve (cwd cfg) (upload_dir cfg) @ [stored_name (uni cfg) (now w) name0])
         = Some (File data (mtime_now w))"
proof -
  let ?D = "resolve (cwd cfg) (upload_dir cfg)"
  let ?T = "?D @ [stored_name (uni cfg) (now w) name0]"
  have post: "do_POST cfg w fs req = save_upload cfg w fs item"
    by (rule do_POST_upload [OF assms(1-4)])
  obtain r1 fs1 where mk: "mkdir w fs ?D = (r1, fs1)" by (cases "mkdir w fs ?D")
  obtain r2 fs2 where wr: "write_bytes w fs1 ?T data = (r2, fs2)"
    by (cases "write_bytes w fs1 ?T data")
  from assms(7) mk wr have r: "r1 = None" "r2 = None"
    by (auto simp: post save_upload_some [OF assms(5,6)] fail500_def split: option.splits)
  with mk wr have s: "snd (do_POST cfg w fs req) = fs2"
    by (simp add: post save_upload_some [OF assms(5,6)])
  from wr r(2) write_bytes_ok [of w fs1 ?T data]
  have "fs2 = AList.update ?T (File data (mtime_now w)) fs1" by simp
  with s show ?thesis by (simp add: update_conv')
qed

text \<open>
  An upload of \<open>a.txt\<close> to the example file system, or to the example file system
  that already holds a file under the stored name of this upload.
\<close>

lemma example_upload_step:
  assumes "mkdir_fault w = None" "open_fault w = None" "write_fault w = None"
    and "N = stored_name (uni example_config) (now w) (ustr ''a.txt'')"
    and "fs = example_fs \<or> fs = example_fs @ [(example_dir @ [N], File d m)]"
  shows "do_POST example_config w fs (example_upload [example_part (Some (ustr ''a.txt'')) data])
         = (Response 200 (Json_success (ustr ''/home/claude/share/'' @ N) (length data)),
            example_fs @ [(example_dir @ [N], File data (mtime_now w))])"
proof -
  let ?item = "example_part (Some (ustr ''a.txt'')) data"
  have p: "file_parts [?item] = [?item]" by (simp add: file_parts_def example_part_def)
  have 5: "file_object ?item = Some data" by (simp add: example_part_def)
  have 6: "filename ?item = Some (ustr ''a.txt'')" by (simp add: example_part_def)
  have post: "do_POST example_config w fs (example_upload [?item])
        = save_upload example_config w fs ?item"
    by (rule do_POST_single_part [OF _ example_upload_is_multipart _ p])
       (simp_all add: example_upload_def)
  have k: "mkdir w fs example_dir = (None, fs)"
    using assms(1,5)
    by (auto simp: mkdir_def example_fs_def example_dir_def ustr_def)
  have wr: "write_bytes w fs (example_dir @ [N]) data
           = (None, example_fs @ [(example_dir @ [N], File data (mtime_now w))])"
    using assms(2,3,5)
    by (auto simp: write_bytes_def node_at_def example_fs_def example_dir_def ustr_def)
  have ps: "path_str \<lparr>absolute = absolute (upload_dir example_config),
                       parts = parts (upload_dir example_config) @ [N]\<rparr>
            = ustr ''/home/claude/share/'' @ N"
    by (simp add: path_str_def example_config_def ustr_def slash_def)
  show ?thesis
    by (subst post, subst save_upload_some [OF 5 6])
       (simp add: example_resolve assms(4) [symmetric] k wr ps)
qed

lemma set_back_stored_name:
  "stored_name (uni example_config) set_back_night (ustr ''a.txt'')
   = ustr ''a_20241027_023000.txt''"
  by (simp add: example_stored_name) (simp add: name_defs char_defs set_back_night_def)

lemma next_second_stored_name:
  "stored_name (uni example_config) (now next_second_io) (ustr ''a.txt'')
   = ustr ''a_20240115_103001.txt''"
  by (simp add: example_stored_name)
     (simp add: name_defs char_defs next_second_io_def example_io_def)

lemma example_upload_step_other:
  assumes "mkdir_fault w = None" "open_fault w = None" "write_fault w = None"
    and "N = stored_name (uni example_config) (now w) (ustr ''a.txt'')"
    and "n \<noteq> N"
  shows "do_POST example_config w (example_fs @ [(example_dir @ [n], File d m)])
           (example_upload [example_part (Some (ustr ''a.txt'')) data])
         = (Response 200 (Json_success (ustr ''/home/claude/share/'' @ N) (length data)),
            example_fs @ [(example_dir @ [n], File d m),
                          (example_dir @ [N], File data (mtime_now w))])"
proof -
  let ?item = "example_part (Some (ustr ''a.txt'')) data"
  let ?fs = "example_fs @ [(example_dir @ [n], File d m)]"
  have p: "file_parts [?item] = [?item]" by (simp add: file_parts_def example_part_def)
  have 5: "file_object ?item = Some data" by (simp add: example_part_def)
  have 6: "filename ?item = Some (ustr ''a.txt'')" by (simp add: example_part_def)
  have post: "do_POST example_config w ?fs (example_upload [?item])
        = save_upload example_config w ?fs ?item"
    by (rule do_POST_single_part [OF _ example_upload_is_multipart _ p])
       (simp_all add: example_upload_def)
  have k: "mkdir w ?fs example_dir = (None, ?fs)"
    using assms(1)
    by (auto simp: mkdir_def example_fs_def example_dir_def ustr_def)
  have wr: "write_bytes w ?fs (example_dir @ [N]) data
           = (None, example_fs @ [(example_dir @ [n], File d m),
                          (example_dir @ [N], File data (mtime_now w))])"
    using assms(2,3,5)
    by (auto simp: write_bytes_def node_at_def example_fs_def example_dir_def ustr_def)
  have ps: "path_str \<lparr>absolute = absolute (upload_dir example_config),
                       parts = parts (upload_dir example_config) @ [N]\<rparr>
            = ustr ''/home/claude/share/'' @ N"
    by (simp add: path_str_def example_config_def ustr_def slash_def)
  show ?thesis
    by (subst post, subst save_upload_some [OF 5 6])
       (simp add: example_resolve assms(4) [symmetric] k wr ps)
qed

lemma serve_two:
  "serve cfg fs [(w1, POST, r1), (w2, POST, r2)]
   = snd (do_POST cfg w2 (snd (do_POST cfg w1 fs r1)) r2)"
  by simp

lemma example_listing_one:
  "listed_entries example_config (example_fs @ [(example_dir @ [n], File d m)])
   = [(n, File d m)]"
  by (simp add: listed_entries_def sorted_reverse_def iterdir_def example_resolve)
     (simp add: example_fs_def example_dir_def ustr_def)

text \<open>
  C8, as the specification states it, fails: an upload writes to its stored name
  whether or not a file is there. Two uploads of \<open>a.txt\<close> half a second apart, in
  the same second of the clock, have the same stored name: the second replaces the
  content of the file that the first created, and the listing shows one file. The
  same happens to two uploads 3600 seconds apart in the night in which the local
  clock is set back by one hour, when both clock readings are 02:30:00.
\<close>

theorem same_stored_name_overwrites:
  "same_second (now example_io) (now later_io)
   \<and> microsecond (now later_io) = microsecond (now example_io) + 500000
   \<and> serve example_config example_fs
        [(example_io, POST, example_upload [example_part (Some (ustr ''a.txt'')) [10]])]
       = example_fs @ [(example_target, File [10] 1705314600)]
   \<and> serve example_config example_fs
        [(example_io, POST, example_upload [example_part (Some (ustr ''a.txt'')) [10]]),
         (later_io, POST, example_upload [example_part (Some (ustr ''a.txt'')) [20, 30]])]
       = example_fs @ [(example_target, File [20, 30] 1705314600)]
   \<and> listed_entries example_config (example_fs @ [(example_target, File [20, 30] 1705314600)])
       = [(ustr ''a_20240115_103000.txt'', File [20, 30] 1705314600)]
   \<and> now before_set_back_io = now after_set_back_io
   \<and> mtime_now after_set_back_io = mtime_now before_set_back_io + 3600
   \<and> serve example_config example_fs
        [(before_set_back_io, POST, example_upload [example_part (Some (ustr ''a.txt'')) [10]]),
         (after_set_back_io, POST,
          example_upload [example_part (Some (ustr ''a.txt'')) [20, 30]])]
       = example_fs @ [(example_dir @ [ustr ''a_20241027_023000.txt''], File [20, 30] 1729992600)]"
proof -
  let ?up1 = "example_upload [example_part (Some (ustr ''a.txt'')) [10]]"
  let ?up2 = "example_upload [example_part (Some (ustr ''a.txt'')) [20, 30]]"
  let ?N = "ustr ''a_20240115_103000.txt''"
  let ?M = "ustr ''a_20241027_023000.txt''"
  have n1: "?N = stored_name (uni example_config) (now example_io) (ustr ''a.txt'')"
    using example_target_eq [of example_io] by (simp add: example_io_def example_target_def)
  have "timestamp (now later_io) = timestamp example_now"
    by (simp add: later_io_def example_io_def timestamp_def)
  then have n2: "?N = stored_name (uni example_config) (now later_io) (ustr ''a.txt'')"
    using n1 by (simp add: example_stored_name example_io_def)
  have m1: "?M = stored_name (uni example_config) (now before_set_back_io) (ustr ''a.txt'')"
    by (simp add: set_back_stored_name before_set_back_io_def example_io_def)
  have m2: "?M = stored_name (uni example_config) (now after_set_back_io) (ustr ''a.txt'')"
    by (simp add: set_back_stored_name after_set_back_io_def example_io_def)
  have a: "do_POST example_config example_io example_fs ?up1
           = (Response 200 (Json_success (ustr ''/home/claude/share/'' @ ?N) (length [10::nat])),
              example_fs @ [(example_dir @ [?N], File [10] (mtime_now example_io))])"
    by (rule example_upload_step [OF _ _ _ n1]) (simp_all add: example_io_def)
  have b: "do_POST example_config later_io
             (example_fs @ [(example_dir @ [?N], File [10] (mtime_now example_io))]) ?up2
           = (Response 200
                (Json_success (ustr ''/home/claude/share/'' @ ?N) (length [20, 30::nat])),
              example_fs @ [(example_dir @ [?N], File [20, 30] (mtime_now later_io))])"
    by (rule example_upload_step [OF _ _ _ n2]) (simp_all add: later_io_def example_io_def)
  have c: "do_POST example_config before_set_back_io example_fs ?up1
           = (Response 200 (Json_success (ustr ''/home/claude/share/'' @ ?M) (length [10::nat])),
              example_fs @ [(example_dir @ [?M], File [10] (mtime_now before_set_back_io))])"
    by (rule example_upload_step [OF _ _ _ m1])
       (simp_all add: before_set_back_io_def example_io_def)
  have d: "do_POST example_config after_set_back_io
             (example_fs @ [(example_dir @ [?M], File [10] (mtime_now before_set_back_io))]) ?up2
           = (Response 200
                (Json_success (ustr ''/home/claude/share/'' @ ?M) (length [20, 30::nat])),
              example_fs @ [(example_dir @ [?M], File [20, 30] (mtime_now after_set_back_io))])"
    by (rule example_upload_step [OF _ _ _ m2])
       (simp_all add: after_set_back_io_def example_io_def)
  have t: "example_target = example_dir @ [?N]" by (simp add: example_target_def)
  have mt: "mtime_now example_io = 1705314600" "mtime_now later_io = 1705314600"
    "mtime_now before_set_back_io = 1729989000" "mtime_now after_set_back_io = 1729992600"
    by (simp_all add: example_io_def later_io_def before_set_back_io_def after_set_back_io_def)
  have 1: "same_second (now example_io) (now later_io)"
    by (simp add: same_second_def later_io_def example_io_def)
  have 2: "microsecond (now later_io) = microsecond (now example_io) + 500000"
    by (simp add: later_io_def example_io_def example_now_def)
  have 3: "serve example_config example_fs [(example_io, POST, ?up1)]
           = example_fs @ [(example_target, File [10] 1705314600)]"
    by (simp add: a t mt)
  have 4: "serve example_config example_fs [(example_io, POST, ?up1), (later_io, POST, ?up2)]
           = example_fs @ [(example_target, File [20, 30] 1705314600)]"
    unfolding serve_two a snd_conv b by (simp add: t mt)
  have 5: "listed_entries example_config (example_fs @ [(example_target, File [20, 30] 1705314600)])
           = [(?N, File [20, 30] 1705314600)]"
    unfolding t by (rule example_listing_one)
  have 6: "now before_set_back_io = now after_set_back_io"
    by (simp add: before_set_back_io_def after_set_back_io_def)
  have 7: "mtime_now after_set_back_io = mtime_now before_set_back_io + 3600"
    by (simp add: mt)
  have 8: "serve example_config example_fs
             [(before_set_back_io, POST, ?up1), (after_set_back_io, POST, ?up2)]
           = example_fs @ [(example_dir @ [?M], File [20, 30] 1729992600)]"
    unfolding serve_two c snd_conv d by (simp add: mt)
  from 1 2 3 4 5 6 7 8 show ?thesis by blast
qed

text \<open>Two uploads of one filename, answered with status 200, at different seconds.\<close>

lemma two_uploads_two_files:
  assumes "path req1 = ustr ''/upload''"
    and "content_type req1 = Some (pre1 @ ustr ''multipart/form-data'' @ post1)"
    and "form req1 = Inr flds1"
    and "filter (\<lambda>f. field_name f = ustr ''file'') flds1 = [item1]"
    and "file_object item1 = Some data1" and "filename item1 = Some name0"
    and "path req2 = ustr ''/upload''"
    and "content_type req2 = Some (pre2 @ ustr ''multipart/form-data'' @ post2)"
    and "form req2 = Inr flds2"
    and "filter (\<lambda>f. field_name f = ustr ''file'') flds2 = [item2]"
    and "file_object item2 = Some data2" and "filename item2 = Some name0"
    and "valid_datetime (now w1)" and "1000 \<le> year (now w1)"
    and "valid_datetime (now w2)" and "1000 \<le> year (now w2)"
    and "\<not> same_second (now w1) (now w2)"
    and "fst (do_POST cfg w1 fs req1) = Response 200 b1"
    and "fst (do_POST cfg w2 (snd (do_POST cfg w1 fs req1)) req2) = Response 200 b2"
    and "D = resolve (cwd cfg) (upload_dir cfg)"
    and "N1 = stored_name (uni cfg) (now w1) name0"
    and "N2 = stored_name (uni cfg) (now w2) name0"
    and "fs2 = serve cfg fs [(w1, POST, req1), (w2, POST, req2)]"
  shows "N1 \<noteq> N2
         \<and> map_of fs2 (D @ [N1]) = Some (File data1 (mtime_now w1))
         \<and> map_of fs2 (D @ [N2]) = Some (File data2 (mtime_now w2))
         \<and> (N1, File data1 (mtime_now w1)) \<in> set (listed_entries cfg fs2)
         \<and> (N2, File data2 (mtime_now w2)) \<in> set (listed_entries cfg fs2)"
proof -
  let ?fs1 = "snd (do_POST cfg w1 fs req1)"
  have f2: "fs2 = snd (do_POST cfg w2 ?fs1 req2)"
    by (simp add: assms(23))
  have ne: "N1 \<noteq> N2"
    unfolding assms(21,22) by (rule stored_name_distinct [OF assms(13-17)])
  have s1: "map_of ?fs1 (D @ [N1]) = Some (File data1 (mtime_now w1))"
    unfolding assms(20,21) by (rule upload_200_stored [OF assms(1-6) assms(18)])
  have "\<forall>flds item name.
           form req2 = Inr flds \<and> item \<in> set flds \<and> field_name item = ustr ''file''
           \<and> filename item = Some name \<longrightarrow>
           D @ [N1] \<noteq> resolve (cwd cfg) (upload_dir cfg) @ [stored_name (uni cfg) (now w2) name]"
  proof (intro allI impI)
    fix flds item name
    assume h: "form req2 = Inr flds \<and> item \<in> set flds \<and> field_name item = ustr ''file''
           \<and> filename item = Some name"
    with assms(9) have "item \<in> set (filter (\<lambda>f. field_name f = ustr ''file'') flds2)" by simp
    with assms(10) have "item = item2" by simp
    with h assms(12) have "name = name0" by simp
    with ne show "D @ [N1]
        \<noteq> resolve (cwd cfg) (upload_dir cfg) @ [stored_name (uni cfg) (now w2) name]"
      by (simp add: assms(20,22))
  qed
  from do_POST_keeps [OF s1 this]
  have k1: "map_of fs2 (D @ [N1]) = Some (File data1 (mtime_now w1))" by (simp add: f2)
  have k2: "map_of fs2 (D @ [N2]) = Some (File data2 (mtime_now w2))"
    unfolding f2 assms(20,22) by (rule upload_200_stored [OF assms(7-12) assms(19)])
  from k1 have l1: "(N1, File data1 (mtime_now w1)) \<in> set (listed_entries cfg fs2)"
    unfolding assms(20) by (rule listed_entries_member)
  from k2 have l2: "(N2, File data2 (mtime_now w2)) \<in> set (listed_entries cfg fs2)"
    unfolding assms(20) by (rule listed_entries_member)
  from ne k1 k2 l1 l2 show ?thesis by blast
qed

text \<open>
  C8, amended. A GET leaves the file system as it is. No sequence of requests
  deletes an entry. An entry keeps its content under every sequence of requests in
  which no upload has the entry's path as the path of its stored name; an upload
  whose stored name is the name of an existing file replaces that file's content.
  The stored names of one filename at two clock readings of different seconds (in
  years of four digits) differ; so when two uploads of the same filename, each with
  one field named \<open>file\<close>, are answered with status 200 at clock readings of
  different seconds, both files are there afterwards, each with its payload, under
  two different names, and both are among the listing's entries.
\<close>

theorem stored_files_under_later_requests:
  assumes "D = resolve (cwd cfg) (upload_dir cfg)"
    and "N1 = stored_name (uni cfg) (now w1) name0"
    and "N2 = stored_name (uni cfg) (now w2) name0"
    and "fs2 = serve cfg fs [(w1, POST, req1), (w2, POST, req2)]"
  shows "snd (handle cfg w fs GET req) = fs
         \<and> (map_of fs p \<noteq> None \<longrightarrow> map_of (serve cfg fs reqs) p \<noteq> None)
         \<and> (map_of fs p = Some v
              \<and> (\<forall>(wi, m, r) \<in> set reqs. \<forall>flds item name.
                    m = POST \<and> form r = Inr flds \<and> item \<in> set flds
                    \<and> field_name item = ustr ''file'' \<and> filename item = Some name \<longrightarrow>
                    p \<noteq> D @ [stored_name (uni cfg) (now wi) name]) \<longrightarrow>
             map_of (serve cfg fs reqs) p = Some v)
         \<and> (valid_datetime (now w1) \<and> 1000 \<le> year (now w1)
              \<and> valid_datetime (now w2) \<and> 1000 \<le> year (now w2)
              \<and> \<not> same_second (now w1) (now w2) \<longrightarrow> N1 \<noteq> N2)
         \<and> (path req1 = ustr ''/upload''
              \<and> content_type req1 = Some (pre1 @ ustr ''multipart/form-data'' @ post1)
              \<and> form req1 = Inr flds1
              \<and> filter (\<lambda>f. field_name f = ustr ''file'') flds1 = [item1]
              \<and> file_object item1 = Some data1 \<and> filename item1 = Some name0
              \<and> path req2 = ustr ''/upload''
              \<and> content_type req2 = Some (pre2 @ ustr ''multipart/form-data'' @ post2)
              \<and> form req2 = Inr flds2
              \<and> filter (\<lambda>f. field_name f = ustr ''file'') flds2 = [item2]
              \<and> file_object item2 = Some data2 \<and> filename item2 = Some name0
              \<and> valid_datetime (now w1) \<and> 1000 \<le> year (now w1)
              \<and> valid_datetime (now w2) \<and> 1000 \<le> year (now w2)
              \<and> \<not> same_second (now w1) (now w2)
              \<and> fst (do_POST cfg w1 fs req1) = Response 200 b1
              \<and> fst (do_POST cfg w2 (snd (do_POST cfg w1 fs req1)) req2) = Response 200 b2 \<longrightarrow>
             N1 \<noteq> N2
             \<and> map_of fs2 (D @ [N1]) = Some (File data1 (mtime_now w1))
             \<and> map_of fs2 (D @ [N2]) = Some (File data2 (mtime_now w2))
             \<and> (N1, File data1 (mtime_now w1)) \<in> set (listed_entries cfg fs2)
             \<and> (N2, File data2 (mtime_now w2)) \<in> set (listed_entries cfg fs2))"
proof -
  have 1: "snd (handle cfg w fs GET req) = fs" by simp
  have 2: "map_of fs p \<noteq> None \<Longrightarrow> map_of (serve cfg fs reqs) p \<noteq> None"
    by (rule serve_never_deletes)
  have 3: "map_of (serve cfg fs reqs) p = Some v"
    if "map_of fs p = Some v"
      and "\<forall>(wi, m, r) \<in> set reqs. \<forall>flds item name.
                    m = POST \<and> form r = Inr flds \<and> item \<in> set flds
                    \<and> field_name item = ustr ''file'' \<and> filename item = Some name \<longrightarrow>
                    p \<noteq> D @ [stored_name (uni cfg) (now wi) name]"
    using that(2) that(1) unfolding assms(1) by (rule serve_keeps)
  have 4: "N1 \<noteq> N2"
    if "valid_datetime (now w1)" "1000 \<le> year (now w1)"
       "valid_datetime (now w2)" "1000 \<le> year (now w2)" "\<not> same_second (now w1) (now w2)"
    unfolding assms(2,3) using that by (rule stored_name_distinct)
  have 5: "N1 \<noteq> N2
             \<and> map_of fs2 (D @ [N1]) = Some (File data1 (mtime_now w1))
             \<and> map_of fs2 (D @ [N2]) = Some (File data2 (mtime_now w2))
             \<and> (N1, File data1 (mtime_now w1)) \<in> set (listed_entries cfg fs2)
             \<and> (N2, File data2 (mtime_now w2)) \<in> set (listed_entries cfg fs2)"
    if "path req1 = ustr ''/upload''"
       "content_type req1 = Some (pre1 @ ustr ''multipart/form-data'' @ post1)"
       "form req1 = Inr flds1"
       "filter (\<lambda>f. field_name f = ustr ''file'') flds1 = [item1]"
       "file_object item1 = Some data1" "filename item1 = Some name0"
       "path req2 = ustr ''/upload''"
       "content_type req2 = Some (pre2 @ ustr ''multipart/form-data'' @ post2)"
       "form req2 = Inr flds2"
       "filter (\<lambda>f. field_name f = ustr ''file'') flds2 = [item2]"
       "file_object item2 = Some data2" "filename item2 = Some name0"
       "valid_datetime (now w1)" "1000 \<le> year (now w1)"
       "valid_datetime (now w2)" "1000 \<le> year (now w2)"
       "\<not> same_second (now w1) (now w2)"
       "fst (do_POST cfg w1 fs req1) = Response 200 b1"
       "fst (do_POST cfg w2 (snd (do_POST cfg w1 fs req1)) req2) = Response 200 b2"
    using that assms by (rule two_uploads_two_files)
  from 1 2 3 4 5 show ?thesis by blast
qed

theorem stored_files_under_later_requests_witness:
  "map_of (example_fs @ [(example_target, File [10] 1705314600)]) example_target
     = Some (File [10] 1705314600)
   \<and> map_of (serve example_config (example_fs @ [(example_target, File [10] 1705314600)])
               [(example_io, GET, files_request),
                (next_second_io, POST,
                 example_upload [example_part (Some (ustr ''a.txt'')) [20, 30]])])
        example_target
     = Some (File [10] 1705314600)
   \<and> valid_datetime (now example_io) \<and> 1000 \<le> year (now example_io)
   \<and> valid_datetime (now next_second_io) \<and> 1000 \<le> year (now next_second_io)
   \<and> \<not> same_second (now example_io) (now next_second_io)
   \<and> ustr ''a_20240115_103000.txt'' \<noteq> ustr ''a_20240115_103001.txt''
   \<and> (ustr ''a_20240115_103000.txt'', File [10] 1705314600)
       \<in> set (listed_entries example_config
                (serve example_config example_fs
                   [(example_io, POST,
                     example_upload [example_part (Some (ustr ''a.txt'')) [10]]),
                    (next_second_io, POST,
                     example_upload [example_part (Some (ustr ''a.txt'')) [20, 30]])]))
   \<and> (ustr ''a_20240115_103001.txt'', File [20, 30] 1705314601)
       \<in> set (listed_entries example_config
                (serve example_config example_fs
                   [(example_io, POST,
                     example_upload [example_part (Some (ustr ''a.txt'')) [10]]),
                    (next_second_io, POST,
                     example_upload [example_part (Some (ustr ''a.txt'')) [20, 30]])]))"
proof -
  let ?i1 = "example_part (Some (ustr ''a.txt'')) [10]"
  let ?i2 = "example_part (Some (ustr ''a.txt'')) [20, 30]"
  let ?up1 = "example_upload [?i1]"
  let ?up2 = "example_upload [?i2]"
  let ?N1 = "ustr ''a_20240115_103000.txt''"
  let ?N2 = "ustr ''a_20240115_103001.txt''"
  let ?fsA = "example_fs @ [(example_target, File [10] 1705314600)]"
  let ?reqs = "[(example_io, GET, files_request), (next_second_io, POST, ?up2)]"
  have d: "example_dir = resolve (cwd example_config) (upload_dir example_config)"
    by (simp add: example_resolve)
  have n1: "?N1 = stored_name (uni example_config) (now example_io) (ustr ''a.txt'')"
    using example_target_eq [of example_io] by (simp add: example_io_def example_target_def)
  have n2: "?N2 = stored_name (uni example_config) (now next_second_io) (ustr ''a.txt'')"
    by (simp add: next_second_stored_name)
  have ne: "?N1 \<noteq> ?N2" by (simp add: ustr_def)
  have t: "example_target = example_dir @ [?N1]" by (simp add: example_target_def)
  have v1: "valid_datetime (now example_io)" "1000 \<le> year (now example_io)"
    by (simp_all add: valid_datetime_def example_io_def example_now_def)
  have v2: "valid_datetime (now next_second_io)" "1000 \<le> year (now next_second_io)"
    by (simp_all add: valid_datetime_def next_second_io_def example_io_def example_now_def)
  have ns: "\<not> same_second (now example_io) (now next_second_io)"
    by (simp add: same_second_def next_second_io_def example_io_def example_now_def)
  have mA: "map_of ?fsA example_target = Some (File [10] 1705314600)"
    by (simp add: example_fs_def example_dir_def example_target_def ustr_def)
  have hA: "\<forall>(wi, m, r) \<in> set ?reqs. \<forall>flds item name.
              m = POST \<and> form r = Inr flds \<and> item \<in> set flds
              \<and> field_name item = ustr ''file'' \<and> filename item = Some name \<longrightarrow>
              example_target \<noteq> example_dir @ [stored_name (uni example_config) (now wi) name]"
    using ne by (auto simp: example_upload_def example_part_def n2 [symmetric] t)
  have a: "do_POST example_config example_io example_fs ?up1
           = (Response 200 (Json_success (ustr ''/home/claude/share/'' @ ?N1) (length [10::nat])),
              example_fs @ [(example_dir @ [?N1], File [10] (mtime_now example_io))])"
    by (rule example_upload_step [OF _ _ _ n1]) (simp_all add: example_io_def)
  have b: "do_POST example_config next_second_io
             (example_fs @ [(example_dir @ [?N1], File [10] (mtime_now example_io))]) ?up2
           = (Response 200
                (Json_success (ustr ''/home/claude/share/'' @ ?N2) (length [20, 30::nat])),
              example_fs @ [(example_dir @ [?N1], File [10] (mtime_now example_io)),
                            (example_dir @ [?N2], File [20, 30] (mtime_now next_second_io))])"
    by (rule example_upload_step_other [OF _ _ _ n2 ne])
       (simp_all add: next_second_io_def example_io_def)
  have r1: "fst (do_POST example_config example_io example_fs ?up1)
            = Response 200 (Json_success (ustr ''/home/claude/share/'' @ ?N1) (length [10::nat]))"
    by (simp only: a fst_conv)
  have r2: "fst (do_POST example_config next_second_io
                   (snd (do_POST example_config example_io example_fs ?up1)) ?up2)
            = Response 200
                (Json_success (ustr ''/home/claude/share/'' @ ?N2) (length [20, 30::nat]))"
    by (simp only: a snd_conv b fst_conv)
  have u1: "path ?up1 = ustr ''/upload''" "form ?up1 = Inr [?i1]"
    "filter (\<lambda>f. field_name f = ustr ''file'') [?i1] = [?i1]"
    "file_object ?i1 = Some [10]" "filename ?i1 = Some (ustr ''a.txt'')"
    by (simp_all add: example_upload_def example_part_def)
  have u2: "path ?up2 = ustr ''/upload''" "form ?up2 = Inr [?i2]"
    "filter (\<lambda>f. field_name f = ustr ''file'') [?i2] = [?i2]"
    "file_object ?i2 = Some [20, 30]" "filename ?i2 = Some (ustr ''a.txt'')"
    by (simp_all add: example_upload_def example_part_def)
  have mt: "mtime_now example_io = 1705314600" "mtime_now next_second_io = 1705314601"
    by (simp_all add: example_io_def next_second_io_def)
  from stored_files_under_later_requests [OF d n1 n2 refl,
      where fs = ?fsA and p = example_target and v = "File [10] 1705314600" and reqs = ?reqs]
    mA hA
  have k: "map_of (serve example_config ?fsA ?reqs) example_target = Some (File [10] 1705314600)"
    by blast
  from stored_files_under_later_requests [OF d n1 n2 refl,
      where fs = example_fs and ?req1.0 = ?up1 and ?req2.0 = ?up2
        and ?pre1.0 = "[]" and ?post1.0 = "ustr ''; boundary=x''"
        and ?pre2.0 = "[]" and ?post2.0 = "ustr ''; boundary=x''"
        and ?flds1.0 = "[?i1]" and ?flds2.0 = "[?i2]" and ?item1.0 = ?i1 and ?item2.0 = ?i2
        and ?data1.0 = "[10]" and ?data2.0 = "[20, 30]"]
    u1 u2 example_content_type [of "[?i1]"] example_content_type [of "[?i2]"]
    v1 v2 ns r1 r2
  have l: "(?N1, File [10] (mtime_now example_io))
             \<in> set (listed_entries example_config
                  (serve example_config example_fs
                     [(example_io, POST, ?up1), (next_second_io, POST, ?up2)]))
           \<and> (?N2, File [20, 30] (mtime_now next_second_io))
             \<in> set (listed_entries example_config
                  (serve example_config example_fs
                     [(example_io, POST, ?up1), (next_second_io, POST, ?up2)]))"
    by blast
  from mA k v1 v2 ns ne l show ?thesis by (simp add: mt)
qed

section \<open>The listing of the files\<close>

























end
